theory Spec2Isabelle
  imports Main "HOL-Library.Sublist"
begin

section \<open>Credit accounting of the headshot / image-edit backends\<close>

text \<open>
  The repository holds several near-duplicate Express servers and serverless handlers.
  Each keeps a per-user integer \<open>credits\<close> column in a profile table of a hosted
  Postgres database, calls an image model (\<open>replicate.run\<close>) and writes rows to a
  transaction table and a generation table. This theory embeds the SQL function
  \<open>update_user_credits\<close> (schema file bundled at the end of \<open>server.js\<close>) and the
  route handlers that move credits, and proves what they do to the stored state.

  Conventions of the embedding.
  \<^item> A table is the list of its rows. \<open>.eq(col, v).single()\<close> of the client library
    yields a row only when exactly one row matches; \<open>.update(...).eq(col, v)\<close>
    rewrites every matching row.
  \<^item> The variants name the profile table \<open>user_profiles\<close> or \<open>profiles\<close> and its key
    \<open>id\<close> or \<open>user_id\<close>; the model has one profile table keyed by \<open>profile_id\<close>.
    The transaction tables carry the signed credit change in a column called
    \<open>amount\<close>, \<open>credits\<close> or \<open>credits_purchased\<close>; the model calls it \<open>amount\<close>.
  \<^item> The \<open>credits\<close> column is a Postgres \<open>INTEGER\<close>: a write outside the 32-bit
    signed range is rejected by the database with an error and changes nothing.
  \<^item> A handler runs between two \<open>await\<close>s without interruption. The profile row that
    the authentication middleware read (\<open>req.user\<close>) is an argument of the handler,
    separate from the database state the handler later writes to.
  \<^item> What the outside world decides is an argument as well: the result of the image
    model, and for each database call whether it reports a failure. Calls on the
    uploaded file (\<open>fs.readFileSync\<close>, \<open>fs.unlinkSync\<close>) are taken to succeed.
  \<^item> Every handler returns its HTTP response, the new database state and the trace
    of external calls and \<open>console.error\<close> lines it made, oldest first. A response is
    its status and the fields \<open>error\<close>, \<open>details\<close>, \<open>creditsRemaining\<close> and
    \<open>imageUrl\<close> of its body; \<open>success\<close>, \<open>message\<close> and the echoed parameters are
    left out, as are the \<open>parameters\<close> column of a generation row and the columns of
    a profile that no handler computes with.
\<close>

subsection \<open>Tables\<close>

type_synonym uuid = string

record user_profile =
  profile_id :: uuid
  email :: string
  credits :: int
  total_credits_purchased :: int

record credit_transaction =
  tx_user_id :: uuid
  amount :: int
  transaction_type :: string
  description :: string

datatype model_output = OutString string | OutArray "string list" | OutOther

record headshot_generation =
  gen_user_id :: uuid
  image_url :: "model_output option"
  credits_used :: int
  status :: string

record db =
  user_profiles :: "user_profile list"
  credit_transactions :: "credit_transaction list"
  headshot_generations :: "headshot_generation list"

definition int4 :: "int \<Rightarrow> bool" where
  "int4 v \<longleftrightarrow> - 2147483648 \<le> v \<and> v \<le> 2147483647"

text \<open>\<open>.single()\<close>: exactly one matching row, otherwise an error (no data).\<close>

definition single :: "('r \<Rightarrow> bool) \<Rightarrow> 'r list \<Rightarrow> 'r option" where
  "single P rows = (case filter P rows of [r] \<Rightarrow> Some r | _ \<Rightarrow> None)"

text \<open>\<open>UPDATE ... SET credits = v WHERE id = u\<close>, on the rows of the table.\<close>

definition set_credits :: "uuid \<Rightarrow> int \<Rightarrow> user_profile list \<Rightarrow> user_profile list" where
  "set_credits u v rows = map (\<lambda>r. if profile_id r = u then r\<lparr>credits := v\<rparr> else r) rows"

definition add_credits :: "uuid \<Rightarrow> int \<Rightarrow> user_profile list \<Rightarrow> user_profile list" where
  "add_credits u d rows =
     map (\<lambda>r. if profile_id r = u then r\<lparr>credits := credits r + d\<rparr> else r) rows"

text \<open>The balance the database holds for an account: the \<open>credits\<close> of its row.\<close>

definition balance :: "db \<Rightarrow> uuid \<Rightarrow> int option" where
  "balance s u = map_option credits (single (\<lambda>r. profile_id r = u) (user_profiles s))"

text \<open>The sum of the signed amounts of the transaction rows of one account.\<close>

definition ledger_sum :: "uuid \<Rightarrow> credit_transaction list \<Rightarrow> int" where
  "ledger_sum u txs = sum_list (map amount (filter (\<lambda>t. tx_user_id t = u) txs))"

subsection \<open>The SQL function \<open>update_user_credits\<close>\<close>

text \<open>
  \<^verbatim>\<open>
  SELECT credits INTO current_credits FROM public.user_profiles WHERE id = user_uuid;
  IF credit_change < 0 AND current_credits + credit_change < 0 THEN
    RETURN FALSE; -- Insufficient credits
  END IF;
  UPDATE public.user_profiles SET credits = credits + credit_change, ... WHERE id = user_uuid;
  INSERT INTO public.credit_transactions (user_id, amount, transaction_type, description)
  VALUES (user_uuid, credit_change, transaction_type, description);
  RETURN TRUE;
  \<close>
  \<open>SELECT ... INTO\<close> takes the first matching row and leaves \<open>NULL\<close> when there is
  none; a comparison with \<open>NULL\<close> is not true, so the \<open>IF\<close> is not taken then.
  Integer arithmetic that leaves the 32-bit range raises an error, which aborts the
  function and rolls back what it did: \<open>Inl\<close>.
\<close>

datatype sql_error = Integer_out_of_range

definition update_user_credits ::
  "uuid \<Rightarrow> int \<Rightarrow> string \<Rightarrow> string \<Rightarrow> db \<Rightarrow> (sql_error + bool) \<times> db" where
  "update_user_credits user_uuid credit_change ttype descr s =
     (let current_credits =
            (case filter (\<lambda>r. profile_id r = user_uuid) (user_profiles s) of
               [] \<Rightarrow> None | r # _ \<Rightarrow> Some (credits r))
      in if \<not> int4 credit_change then (Inl Integer_out_of_range, s)
         else if (\<exists>r \<in> set (user_profiles s).
                    profile_id r = user_uuid \<and> \<not> int4 (credits r + credit_change))
         then (Inl Integer_out_of_range, s)
         else if credit_change < 0 \<and>
                 (case current_credits of None \<Rightarrow> False | Some c \<Rightarrow> c + credit_change < 0)
         then (Inr False, s)
         else (Inr True,
               s\<lparr>user_profiles := add_credits user_uuid credit_change (user_profiles s),
                 credit_transactions := credit_transactions s @
                   [\<lparr>tx_user_id = user_uuid, amount = credit_change,
                     transaction_type = ttype, description = descr\<rparr>]\<rparr>))"

text \<open>
  \<open>handle_new_user\<close>, the trigger on registration: a profile with 10 credits and the
  matching bonus row. \<open>id\<close> is the primary key of the profile table, so for an id
  that already has a profile the insert fails and the trigger changes nothing.
\<close>

definition handle_new_user :: "uuid \<Rightarrow> string \<Rightarrow> db \<Rightarrow> db" where
  "handle_new_user new_id new_email s =
     (if new_id \<in> set (map profile_id (user_profiles s)) then s
      else
        s\<lparr>user_profiles := user_profiles s @
            [\<lparr>profile_id = new_id, email = new_email, credits = 10,
              total_credits_purchased = 0\<rparr>],
          credit_transactions := credit_transactions s @
            [\<lparr>tx_user_id = new_id, amount = 10, transaction_type = ''bonus'',
              description = ''Welcome bonus - 10 free credits''\<rparr>]\<rparr>)"

text \<open>The primary key of the profile table: no two rows share an id.\<close>

definition primary_key :: "db \<Rightarrow> bool" where
  "primary_key s \<longleftrightarrow> distinct (map profile_id (user_profiles s))"

subsection \<open>Calls from the handlers\<close>

text \<open>
  A database call made through the client resolves to \<open>{ data, error }\<close>; an
  \<open>await\<close>ed call can also reject, which throws at the \<open>await\<close>. \<open>fault\<close> is what
  the outside world does to one call, \<open>reply\<close> what the handler sees. A call that
  fails leaves the database as it was.
\<close>

datatype fault = NoFault | ReturnsError | Rejects

datatype 'a reply = Data 'a | Error | Rejected

definition rpc_update_user_credits ::
  "fault \<Rightarrow> uuid \<Rightarrow> int \<Rightarrow> string \<Rightarrow> string \<Rightarrow> db \<Rightarrow> bool reply \<times> db" where
  "rpc_update_user_credits f user_uuid credit_change ttype descr s =
     (case f of
        ReturnsError \<Rightarrow> (Error, s)
      | Rejects \<Rightarrow> (Rejected, s)
      | NoFault \<Rightarrow>
          (case update_user_credits user_uuid credit_change ttype descr s of
             (Inl e, s') \<Rightarrow> (Error, s)
           | (Inr b, s') \<Rightarrow> (Data b, s')))"

text \<open>\<open>.from(profiles).select(...).eq('id', u).single()\<close>\<close>

definition select_profile :: "fault \<Rightarrow> uuid \<Rightarrow> db \<Rightarrow> user_profile reply" where
  "select_profile f u s =
     (case f of
        ReturnsError \<Rightarrow> Error
      | Rejects \<Rightarrow> Rejected
      | NoFault \<Rightarrow>
          (case single (\<lambda>r. profile_id r = u) (user_profiles s) of
             None \<Rightarrow> Error | Some p \<Rightarrow> Data p))"

text \<open>\<open>.from(profiles).update({ credits: v }).eq('id', u)\<close>\<close>

definition update_credits :: "fault \<Rightarrow> uuid \<Rightarrow> int \<Rightarrow> db \<Rightarrow> unit reply \<times> db" where
  "update_credits f u v s =
     (case f of
        ReturnsError \<Rightarrow> (Error, s)
      | Rejects \<Rightarrow> (Rejected, s)
      | NoFault \<Rightarrow>
          (if int4 v then (Data (), s\<lparr>user_profiles := set_credits u v (user_profiles s)\<rparr>)
           else (Error, s)))"

text \<open>
  \<open>.update({ credits: v }).eq('user_id', u).select().single()\<close>: the row as updated;
  when not exactly one row matches the call is an error and nothing is written.
\<close>

definition update_credits_single ::
  "fault \<Rightarrow> uuid \<Rightarrow> int \<Rightarrow> db \<Rightarrow> user_profile reply \<times> db" where
  "update_credits_single f u v s =
     (case f of
        ReturnsError \<Rightarrow> (Error, s)
      | Rejects \<Rightarrow> (Rejected, s)
      | NoFault \<Rightarrow>
          (case single (\<lambda>r. profile_id r = u) (user_profiles s) of
             None \<Rightarrow> (Error, s)
           | Some p \<Rightarrow>
               (if int4 v
                then (Data (p\<lparr>credits := v\<rparr>),
                      s\<lparr>user_profiles := set_credits u v (user_profiles s)\<rparr>)
                else (Error, s))))"

definition insert_generation ::
  "fault \<Rightarrow> headshot_generation \<Rightarrow> db \<Rightarrow> unit reply \<times> db" where
  "insert_generation f g s =
     (case f of
        ReturnsError \<Rightarrow> (Error, s)
      | Rejects \<Rightarrow> (Rejected, s)
      | NoFault \<Rightarrow> (Data (), s\<lparr>headshot_generations := headshot_generations s @ [g]\<rparr>))"

definition insert_transaction ::
  "fault \<Rightarrow> credit_transaction \<Rightarrow> db \<Rightarrow> unit reply \<times> db" where
  "insert_transaction f t s =
     (case f of
        ReturnsError \<Rightarrow> (Error, s)
      | Rejects \<Rightarrow> (Rejected, s)
      | NoFault \<Rightarrow> (Data (), s\<lparr>credit_transactions := credit_transactions s @ [t]\<rparr>))"

datatype 'a outcome = Returns 'a | Throws string

datatype event =
    Rpc_update_user_credits int string
  | Replicate_run
  | Select_profile
  | Update_credits int
  | Insert_credit_transaction int string
  | Insert_headshot_generation string
  | Console_error string

record response =
  res_status :: nat
  res_error :: "string option"
  res_details :: "string option"
  res_creditsRemaining :: "int option"
  res_imageUrl :: "model_output option"

definition json_error :: "nat \<Rightarrow> string \<Rightarrow> string option \<Rightarrow> int option \<Rightarrow> response" where
  "json_error st e d c =
     \<lparr>res_status = st, res_error = Some e, res_details = d,
      res_creditsRemaining = c, res_imageUrl = None\<rparr>"

definition json_success :: "model_output \<Rightarrow> int option \<Rightarrow> response" where
  "json_success out c =
     \<lparr>res_status = 200, res_error = None, res_details = None,
      res_creditsRemaining = c, res_imageUrl = Some out\<rparr>"

record request =
  req_user :: user_profile
  req_file :: bool

text \<open>What the outside world decides during one request.\<close>

record env =
  auth_fault :: fault
  profile_fault :: fault
  credit_fault :: fault
  replicate_result :: "model_output outcome"
  record_fault :: fault
  transaction_fault :: fault
  refund_fault :: fault
  failed_record_fault :: fault

text \<open>The message of the error that a rejected call throws.\<close>

definition rejection :: string where
  "rejection = ''fetch failed''"

text \<open>
  \<open>authenticateUser\<close> / \<open>authenticateToken\<close> of the Express servers: after the token
  is verified (outside the model; it yields \<open>decoded.userId\<close>) the middleware reads
  the profile row and stores it in \<open>req.user\<close>. Without the row, or when the read
  fails or throws, the request ends with status 401.
\<close>

definition authenticateUser :: "fault \<Rightarrow> uuid \<Rightarrow> db \<Rightarrow> user_profile option" where
  "authenticateUser f userId s =
     (case select_profile f userId s of Data p \<Rightarrow> Some p | _ \<Rightarrow> None)"

definition unauthorized :: response where
  "unauthorized = json_error 401 ''Invalid authentication token'' None None"

subsection \<open>\<open>POST /generate-headshot\<close> of \<open>server_with_auth.js\<close>: debit first, refund on failure\<close>

text \<open>
  The same handler is in \<open>server_email_fixed.js\<close>. \<open>try_auth\<close> is the body of the
  \<open>try\<close>: \<open>Inl msg\<close> when it throws, \<open>Inr\<close> the response it sent. Only the
  \<open>error\<close> field of the result of the debit is read; the \<open>data\<close> (the boolean the SQL
  function returns) is not.
\<close>

definition try_auth ::
  "env \<Rightarrow> request \<Rightarrow> db \<Rightarrow> (string + response) \<times> db \<times> event list" where
  "try_auth e req s =
     (if \<not> req_file req then (Inr (json_error 400 ''No image file uploaded'' None None), s, [])
      else if credits (req_user req) < 1 then
        (Inr (json_error 402 ''Insufficient credits''
           (Some ''You need at least 1 credit to generate a headshot. Please purchase more credits.'')
           None), s, [])
      else
        (case rpc_update_user_credits (credit_fault e) (profile_id (req_user req)) (- 1)
                ''usage'' ''Professional headshot generation'' s of
           (Rejected, s1) \<Rightarrow> (Inl rejection, s1, [Rpc_update_user_credits (- 1) ''usage''])
         | (Error, s1) \<Rightarrow>
             (Inr (json_error 402 ''Failed to deduct credits'' None None), s1,
              [Rpc_update_user_credits (- 1) ''usage'', Console_error ''Credit deduction error:''])
         | (Data b, s1) \<Rightarrow>
             (case replicate_result e of
                Throws msg \<Rightarrow> (Inl msg, s1, [Rpc_update_user_credits (- 1) ''usage'', Replicate_run])
              | Returns out \<Rightarrow>
                  (case insert_generation (record_fault e)
                          \<lparr>gen_user_id = profile_id (req_user req), image_url = Some out,
                           credits_used = 1, status = ''completed''\<rparr> s1 of
                     (Rejected, s2) \<Rightarrow>
                       (Inl rejection, s2,
                        [Rpc_update_user_credits (- 1) ''usage'', Replicate_run,
                         Insert_headshot_generation ''completed''])
                   | (r, s2) \<Rightarrow>
                       (let tr = [Rpc_update_user_credits (- 1) ''usage'', Replicate_run,
                                  Insert_headshot_generation ''completed''] @
                                 (if r = Error then [Console_error ''Generation record error:'']
                                  else []) @ [Select_profile]
                        in case select_profile (profile_fault e) (profile_id (req_user req)) s2 of
                             Rejected \<Rightarrow> (Inl rejection, s2, tr)
                           | Error \<Rightarrow> (Inr (json_success out (Some 0)), s2, tr)
                           | Data p \<Rightarrow> (Inr (json_success out (Some (credits p))), s2, tr))))))"

text \<open>
  The \<open>catch\<close> block: log, refund one credit, answer 500. The refund is wrapped in
  its own \<open>try\<close>, whose \<open>catch\<close> logs \<open>Refund error:\<close>; the result the call resolves
  to is not read.
\<close>

definition catch_auth ::
  "env \<Rightarrow> request \<Rightarrow> string \<Rightarrow> db \<Rightarrow> event list \<Rightarrow> response \<times> db \<times> event list" where
  "catch_auth e req msg s tr =
     (case rpc_update_user_credits (refund_fault e) (profile_id (req_user req)) 1
             ''refund'' ''Refund for failed generation'' s of
        (r, s') \<Rightarrow>
          (json_error 500 ''Failed to generate headshot'' (Some msg) None, s',
           tr @ [Console_error ''Error generating headshot:'',
                 Rpc_update_user_credits 1 ''refund''] @
             (if r = Rejected then [Console_error ''Refund error:''] else [])))"

definition generate_headshot_auth ::
  "env \<Rightarrow> request \<Rightarrow> db \<Rightarrow> response \<times> db \<times> event list" where
  "generate_headshot_auth e req s =
     (case try_auth e req s of
        (Inl msg, s1, tr) \<Rightarrow> catch_auth e req msg s1 tr
      | (Inr res, s1, tr) \<Rightarrow> (res, s1, tr))"

definition post_generate_headshot_auth ::
  "env \<Rightarrow> uuid \<Rightarrow> bool \<Rightarrow> db \<Rightarrow> response \<times> db \<times> event list" where
  "post_generate_headshot_auth e userId has_file s =
     (case authenticateUser (auth_fault e) userId s of
        None \<Rightarrow> (unauthorized, s, [])
      | Some p \<Rightarrow> generate_headshot_auth e \<lparr>req_user = p, req_file = has_file\<rparr> s)"

subsection \<open>\<open>POST /generate-headshot\<close> of \<open>server_with_credits.js\<close>: run the model, then debit\<close>

text \<open>\<open>String.prototype.includes\<close>\<close>

fun str_includes :: "string \<Rightarrow> string \<Rightarrow> bool" where
  "str_includes [] sub = (sub = [])"
| "str_includes (c # cs) sub = (prefix sub (c # cs) \<or> str_includes cs sub)"

text \<open>
  \<^verbatim>\<open>
  if (Array.isArray(output) && output.length > 0) imageUrl = output[0];
  else if (typeof output === 'string') imageUrl = output;
  else throw new Error('Unexpected output format from Replicate');
  \<close>
\<close>

definition imageUrl_of :: "model_output \<Rightarrow> model_output option" where
  "imageUrl_of out =
     (case out of
        OutArray (x # xs) \<Rightarrow> Some (OutString x)
      | OutArray [] \<Rightarrow> None
      | OutString x \<Rightarrow> Some (OutString x)
      | OutOther \<Rightarrow> None)"

definition try_credits ::
  "env \<Rightarrow> request \<Rightarrow> db \<Rightarrow> (string + response) \<times> db \<times> event list" where
  "try_credits e req s =
     (if credits (req_user req) < 1 then
        (Inr (json_error 400
                ''Insufficient credits. You need at least 1 credit to generate a headshot.''
                None (Some (credits (req_user req)))), s, [])
      else if \<not> req_file req then
        (Inr (json_error 400 ''No image file uploaded'' None None), s, [])
      else
        (case replicate_result e of
           Throws msg \<Rightarrow> (Inl msg, s, [Replicate_run])
         | Returns out \<Rightarrow>
             (case imageUrl_of out of
                None \<Rightarrow> (Inl ''Unexpected output format from Replicate'', s, [Replicate_run])
              | Some imageUrl \<Rightarrow>
                  (case update_credits_single (credit_fault e) (profile_id (req_user req))
                          (credits (req_user req) - 1) s of
                     (Rejected, s1) \<Rightarrow>
                       (Inl rejection, s1,
                        [Replicate_run, Update_credits (credits (req_user req) - 1)])
                   | (r, s1) \<Rightarrow>
                       (let tr = [Replicate_run, Update_credits (credits (req_user req) - 1)] @
                                 (if r = Error
                                  then [Console_error ''Failed to update user credits:'']
                                  else []) @ [Insert_headshot_generation ''completed'']
                        in case insert_generation (record_fault e)
                                  \<lparr>gen_user_id = profile_id (req_user req),
                                   image_url = Some imageUrl,
                                   credits_used = 1, status = ''completed''\<rparr> s1 of
                             (Rejected, s2) \<Rightarrow> (Inl rejection, s2, tr)
                           | (r2, s2) \<Rightarrow>
                               (Inr (json_success imageUrl
                                       (Some (case r of Data p \<Rightarrow> credits p
                                              | _ \<Rightarrow> credits (req_user req) - 1))),
                                s2,
                                tr @ (if r2 = Error
                                      then [Console_error ''Failed to save generation record:'']
                                      else [])))))))"

definition catch_credits ::
  "request \<Rightarrow> string \<Rightarrow> db \<Rightarrow> event list \<Rightarrow> response \<times> db \<times> event list" where
  "catch_credits req msg s tr =
     (let (errorMessage, errorDetails) =
            (if str_includes msg ''NSFW'' then
               (''Image rejected: Content not suitable for professional headshots'',
                ''Please upload a different image that shows a clear face without inappropriate content.'')
             else if str_includes msg ''face'' then
               (''No clear face detected in the image'',
                ''Please upload an image with a clearly visible face for best results.'')
             else if str_includes msg ''timeout'' then
               (''Generation timed out'',
                ''The AI service is currently busy. Please try again in a few moments.'')
             else (''Failed to generate headshot'', msg))
      in (json_error 500 errorMessage (Some errorDetails) (Some (credits (req_user req))), s,
          tr @ [Console_error ''Headshot generation error:'']))"

definition generate_headshot_credits ::
  "env \<Rightarrow> request \<Rightarrow> db \<Rightarrow> response \<times> db \<times> event list" where
  "generate_headshot_credits e req s =
     (case try_credits e req s of
        (Inl msg, s1, tr) \<Rightarrow> catch_credits req msg s1 tr
      | (Inr res, s1, tr) \<Rightarrow> (res, s1, tr))"

definition post_generate_headshot_credits ::
  "env \<Rightarrow> uuid \<Rightarrow> bool \<Rightarrow> db \<Rightarrow> response \<times> db \<times> event list" where
  "post_generate_headshot_credits e userId has_file s =
     (case authenticateUser (auth_fault e) userId s of
        None \<Rightarrow> (unauthorized, s, [])
      | Some p \<Rightarrow> generate_headshot_credits e \<lparr>req_user = p, req_file = has_file\<rparr> s)"

subsection \<open>\<open>POST /api/generate-headshot\<close> of \<open>server_with_auth.js\<close>: read, run the model, write\<close>

text \<open>
  Here the middleware only verifies the token; the handler reads the balance itself,
  and after the model has returned it writes that balance minus one and inserts a
  \<open>usage\<close> row, each as a call of its own whose failure is logged and ignored.
\<close>

definition try_api ::
  "env \<Rightarrow> uuid \<Rightarrow> bool \<Rightarrow> db \<Rightarrow> (string + response) \<times> db \<times> event list" where
  "try_api e userId has_file s =
     (if \<not> has_file then (Inr (json_error 400 ''No image file provided'' None None), s, [])
      else
        (case select_profile (profile_fault e) userId s of
           Rejected \<Rightarrow> (Inl rejection, s, [Select_profile])
         | Error \<Rightarrow> (Inr (json_error 404 ''User not found'' None None), s, [Select_profile])
         | Data profile \<Rightarrow>
             (if credits profile < 1 then
                (Inr (json_error 400 ''Insufficient credits'' None None), s, [Select_profile])
              else
                (case replicate_result e of
                   Throws msg \<Rightarrow> (Inl msg, s, [Select_profile, Replicate_run])
                 | Returns out \<Rightarrow>
                     (let newCredits = credits profile - 1
                      in case update_credits (credit_fault e) userId newCredits s of
                           (Rejected, s1) \<Rightarrow>
                             (Inl rejection, s1,
                              [Select_profile, Replicate_run, Update_credits newCredits])
                         | (r, s1) \<Rightarrow>
                             (let tr = [Select_profile, Replicate_run, Update_credits newCredits] @
                                       (if r = Error
                                        then [Console_error ''Error updating credits:'']
                                        else []) @
                                       [Insert_credit_transaction (- 1) ''usage'']
                              in case insert_transaction (transaction_fault e)
                                        \<lparr>tx_user_id = userId, amount = - 1,
                                         transaction_type = ''usage'',
                                         description = ''Generated professional headshot''\<rparr> s1 of
                                   (Rejected, s2) \<Rightarrow> (Inl rejection, s2, tr)
                                 | (r2, s2) \<Rightarrow>
                                     (Inr (json_success out (Some newCredits)), s2,
                                      tr @ (if r2 = Error
                                            then [Console_error ''Error recording transaction:'']
                                            else []))))))))"

definition api_generate_headshot ::
  "env \<Rightarrow> uuid \<Rightarrow> bool \<Rightarrow> db \<Rightarrow> response \<times> db \<times> event list" where
  "api_generate_headshot e userId has_file s =
     (case try_api e userId has_file s of
        (Inl msg, s1, tr) \<Rightarrow>
          (json_error 500 ''Failed to generate headshot'' (Some msg) None, s1,
           tr @ [Console_error ''Error generating headshot:''])
      | (Inr res, s1, tr) \<Rightarrow> (res, s1, tr))"

subsection \<open>\<open>POST /generate-headshot\<close> of the server bundled in \<open>api/auth/session-status.js\<close>\<close>

text \<open>
  Run the model, then debit through \<open>update_user_credits\<close>, then record the
  generation; the \<open>catch\<close> block records a \<open>failed\<close> generation with no image. An
  error thrown inside the \<open>catch\<close> block leaves the request without a response:
  \<open>None\<close>.
\<close>

definition try_session ::
  "env \<Rightarrow> request \<Rightarrow> db \<Rightarrow> (string + response) \<times> db \<times> event list" where
  "try_session e req s =
     (if \<not> req_file req then (Inr (json_error 400 ''No image file uploaded'' None None), s, [])
      else if credits (req_user req) < 1 then
        (Inr (json_error 400 ''Insufficient credits'' None None), s, [])
      else
        (case replicate_result e of
           Throws msg \<Rightarrow> (Inl msg, s, [Replicate_run])
         | Returns out \<Rightarrow>
             (case rpc_update_user_credits (credit_fault e) (profile_id (req_user req)) (- 1)
                     ''usage'' ''Generated professional headshot'' s of
                (Rejected, s1) \<Rightarrow>
                  (Inl rejection, s1, [Replicate_run, Rpc_update_user_credits (- 1) ''usage''])
              | (r, s1) \<Rightarrow>
                  (let tr = [Replicate_run, Rpc_update_user_credits (- 1) ''usage''] @
                            (if r = Error then [Console_error ''Credit deduction error:'']
                             else []) @ [Insert_headshot_generation ''completed'']
                   in case insert_generation (record_fault e)
                             \<lparr>gen_user_id = profile_id (req_user req), image_url = Some out,
                              credits_used = 1, status = ''completed''\<rparr> s1 of
                        (Rejected, s2) \<Rightarrow> (Inl rejection, s2, tr)
                      | (r2, s2) \<Rightarrow>
                          (Inr (json_success out (Some (credits (req_user req) - 1))),
                           s2, tr)))))"

definition catch_session ::
  "env \<Rightarrow> request \<Rightarrow> string \<Rightarrow> db \<Rightarrow> event list \<Rightarrow> response option \<times> db \<times> event list" where
  "catch_session e req msg s tr =
     (case insert_generation (failed_record_fault e)
             \<lparr>gen_user_id = profile_id (req_user req), image_url = None,
              credits_used = 0, status = ''failed''\<rparr> s of
        (Rejected, s') \<Rightarrow>
          (None, s',
           tr @ [Console_error ''Error generating headshot:'', Insert_headshot_generation ''failed''])
      | (r, s') \<Rightarrow>
          (Some (json_error 500 ''Failed to generate headshot'' (Some msg) None), s',
           tr @ [Console_error ''Error generating headshot:'', Insert_headshot_generation ''failed'']))"

definition generate_headshot_session ::
  "env \<Rightarrow> request \<Rightarrow> db \<Rightarrow> response option \<times> db \<times> event list" where
  "generate_headshot_session e req s =
     (case try_session e req s of
        (Inl msg, s1, tr) \<Rightarrow> catch_session e req msg s1 tr
      | (Inr res, s1, tr) \<Rightarrow> (Some res, s1, tr))"

definition post_generate_headshot_session ::
  "env \<Rightarrow> uuid \<Rightarrow> bool \<Rightarrow> db \<Rightarrow> response option \<times> db \<times> event list" where
  "post_generate_headshot_session e userId has_file s =
     (case authenticateUser (auth_fault e) userId s of
        None \<Rightarrow> (Some unauthorized, s, [])
      | Some p \<Rightarrow> generate_headshot_session e \<lparr>req_user = p, req_file = has_file\<rparr> s)"

subsection \<open>The serverless handler \<open>api/auth/generate-headshot.js\<close>\<close>

text \<open>
  The handler reads the profile itself. Its body is the asynchronous callback of
  \<open>form.parse\<close>, which the \<open>try\<close> around \<open>form.parse\<close> does not cover: an error
  thrown in the body leaves the request without a response (\<open>None\<close>). The request is
  a \<open>POST\<close> whose form parses and whose token verifies.
\<close>

definition generate_headshot_vercel ::
  "env \<Rightarrow> uuid \<Rightarrow> bool \<Rightarrow> db \<Rightarrow> response option \<times> db \<times> event list" where
  "generate_headshot_vercel e userId has_file s =
     (case select_profile (profile_fault e) userId s of
        Rejected \<Rightarrow> (None, s, [Select_profile])
      | Error \<Rightarrow> (Some unauthorized, s, [Select_profile])
      | Data usr \<Rightarrow>
          (if credits usr < 1 then
             (Some (json_error 400 ''Insufficient credits'' None None), s, [Select_profile])
           else if \<not> has_file then
             (Some (json_error 400 ''No image file uploaded'' None None), s, [Select_profile])
           else
             (case replicate_result e of
                Throws msg \<Rightarrow> (None, s, [Select_profile, Replicate_run])
              | Returns out \<Rightarrow>
                  (case rpc_update_user_credits (credit_fault e) (profile_id usr) (- 1)
                          ''usage'' ''Generated professional headshot'' s of
                     (Rejected, s1) \<Rightarrow>
                       (None, s1,
                        [Select_profile, Replicate_run, Rpc_update_user_credits (- 1) ''usage''])
                   | (r, s1) \<Rightarrow>
                       (case insert_generation (record_fault e)
                               \<lparr>gen_user_id = profile_id usr, image_url = Some out,
                                credits_used = 1, status = ''completed''\<rparr> s1 of
                          (Rejected, s2) \<Rightarrow>
                            (None, s2,
                             [Select_profile, Replicate_run,
                              Rpc_update_user_credits (- 1) ''usage'',
                              Insert_headshot_generation ''completed''])
                        | (r2, s2) \<Rightarrow>
                            (Some (json_success out (Some (credits usr - 1))), s2,
                             [Select_profile, Replicate_run,
                              Rpc_update_user_credits (- 1) ''usage'',
                              Insert_headshot_generation ''completed'']))))))"

subsection \<open>Purchases\<close>

text \<open>
  \<open>POST /api/purchase-credits\<close> of \<open>server_with_credits.js\<close>, for a request that
  names a package. The row of \<open>credit_packages\<close> that the handler selects is an
  argument (\<open>None\<close>: no active package with that id). The handler inserts the
  transaction row first (its \<open>credits_purchased\<close> is the \<open>amount\<close> of the model, its
  \<open>payment_method\<close> the description) and then writes
  \<open>req.user.credits + package.credits\<close>.
\<close>

record credit_package =
  package_credits :: int
  price_cents :: int

definition purchase_credits ::
  "env \<Rightarrow> request \<Rightarrow> credit_package option \<Rightarrow> db \<Rightarrow> response \<times> db \<times> event list" where
  "purchase_credits e req package s =
     (case package of
        None \<Rightarrow> (json_error 404 ''Credit package not found'' None None, s, [])
      | Some pkg \<Rightarrow>
          (case insert_transaction (transaction_fault e)
                  \<lparr>tx_user_id = profile_id (req_user req), amount = package_credits pkg,
                   transaction_type = ''purchase'', description = ''mock''\<rparr> s of
             (Rejected, s1) \<Rightarrow>
               (json_error 500 ''Internal server error during purchase'' None None, s1,
                [Insert_credit_transaction (package_credits pkg) ''purchase'',
                 Console_error ''Purchase credits error:''])
           | (Error, s1) \<Rightarrow>
               (json_error 500 ''Failed to create transaction record'' None None, s1,
                [Insert_credit_transaction (package_credits pkg) ''purchase'',
                 Console_error ''Transaction creation error:''])
           | (Data u, s1) \<Rightarrow>
               (case update_credits_single (credit_fault e) (profile_id (req_user req))
                       (credits (req_user req) + package_credits pkg) s1 of
                  (Rejected, s2) \<Rightarrow>
                    (json_error 500 ''Internal server error during purchase'' None None, s2,
                     [Insert_credit_transaction (package_credits pkg) ''purchase'',
                      Update_credits (credits (req_user req) + package_credits pkg),
                      Console_error ''Purchase credits error:''])
                | (Error, s2) \<Rightarrow>
                    (json_error 500 ''Failed to update user credits'' None None, s2,
                     [Insert_credit_transaction (package_credits pkg) ''purchase'',
                      Update_credits (credits (req_user req) + package_credits pkg),
                      Console_error ''Profile update error:''])
                | (Data p, s2) \<Rightarrow>
                    (\<lparr>res_status = 200, res_error = None, res_details = None,
                      res_creditsRemaining = Some (credits p), res_imageUrl = None\<rparr>, s2,
                     [Insert_credit_transaction (package_credits pkg) ''purchase'',
                      Update_credits (credits (req_user req) + package_credits pkg)]))))"

definition post_purchase_credits ::
  "env \<Rightarrow> uuid \<Rightarrow> credit_package option \<Rightarrow> db \<Rightarrow> response \<times> db \<times> event list" where
  "post_purchase_credits e userId package s =
     (case authenticateUser (auth_fault e) userId s of
        None \<Rightarrow> (unauthorized, s, [])
      | Some p \<Rightarrow> purchase_credits e \<lparr>req_user = p, req_file = False\<rparr> package s)"

text \<open>
  The Stripe webhook (bundled after \<open>server_with_credits.js\<close>, and in \<open>server.js\<close>)
  on a verified \<open>checkout.session.completed\<close> event. \<open>mail\<close>, \<open>n\<close> and \<open>quantity\<close>
  are \<open>session.customer_details.email\<close> and the parsed \<open>metadata.credits\<close> and
  \<open>metadata.quantity\<close>. It always answers 200.
  \<^verbatim>\<open>
  if (email && credits && quantity) {
    try {
      const { data: user, error } = await supabase.from('user_profiles')
        .select('id, credits').eq('email', email).single();
      if (!user) throw new Error('User not found');
      const newCredits = (user.credits || 0) + credits * quantity;
      await supabase.from('user_profiles').update({ credits: newCredits }).eq('id', user.id);
    } catch (err) { console.error('Failed to update credits:', err.message); }
  }
  \<close>
\<close>

definition stripe_webhook :: "env \<Rightarrow> string \<Rightarrow> int \<Rightarrow> int \<Rightarrow> db \<Rightarrow> db \<times> event list" where
  "stripe_webhook e mail n quantity s =
     (if mail \<noteq> [] \<and> n \<noteq> 0 \<and> quantity \<noteq> 0 then
        (case (case profile_fault e of
                 NoFault \<Rightarrow> single (\<lambda>r. email r = mail) (user_profiles s)
               | _ \<Rightarrow> None) of
           None \<Rightarrow> (s, [Select_profile, Console_error ''Failed to update credits:''])
         | Some usr \<Rightarrow>
             (let newCredits = credits usr + n * quantity
              in case update_credits (credit_fault e) (profile_id usr) newCredits s of
                   (Rejected, s1) \<Rightarrow>
                     (s1, [Select_profile, Update_credits newCredits,
                           Console_error ''Failed to update credits:''])
                 | (r, s1) \<Rightarrow> (s1, [Select_profile, Update_credits newCredits])))
      else (s, []))"

subsection \<open>Sequences of operations\<close>

text \<open>
  One operation on the stored state: the registration trigger, a call of
  \<open>update_user_credits\<close> (the purchase routes that go through it, a usage debit, a
  refund), a generation request to one of the servers, a purchase, a webhook event.
  Each request runs to its end, its middleware reading the state the previous
  operation left.
\<close>

datatype op =
    Handle_new_user uuid string
  | Update_user_credits uuid int string string
  | Generate_headshot_auth env uuid bool
  | Generate_headshot_credits env uuid bool
  | Api_generate_headshot env uuid bool
  | Generate_headshot_session env uuid bool
  | Generate_headshot_vercel env uuid bool
  | Purchase_credits env uuid "credit_package option"
  | Stripe_webhook env string int int

fun apply_op :: "op \<Rightarrow> db \<Rightarrow> db" where
  "apply_op (Handle_new_user u m) s = handle_new_user u m s"
| "apply_op (Update_user_credits u d t ds) s = snd (update_user_credits u d t ds s)"
| "apply_op (Generate_headshot_auth e u f) s = fst (snd (post_generate_headshot_auth e u f s))"
| "apply_op (Generate_headshot_credits e u f) s =
     fst (snd (post_generate_headshot_credits e u f s))"
| "apply_op (Api_generate_headshot e u f) s = fst (snd (api_generate_headshot e u f s))"
| "apply_op (Generate_headshot_session e u f) s =
     fst (snd (post_generate_headshot_session e u f s))"
| "apply_op (Generate_headshot_vercel e u f) s = fst (snd (generate_headshot_vercel e u f s))"
| "apply_op (Purchase_credits e u p) s = fst (snd (post_purchase_credits e u p s))"
| "apply_op (Stripe_webhook e m n q) s = fst (stripe_webhook e m n q s)"

text \<open>The states after each operation of a sequence, in order.\<close>

fun states_after :: "op list \<Rightarrow> db \<Rightarrow> db list" where
  "states_after [] s = []"
| "states_after (x # xs) s = apply_op x s # states_after xs (apply_op x s)"

text \<open>A purchase or a webhook event that adds credits, as payments do.\<close>

fun credits_added :: "op \<Rightarrow> bool" where
  "credits_added (Purchase_credits e u (Some pkg)) = (0 \<le> package_credits pkg)"
| "credits_added (Stripe_webhook e m n q) = (0 \<le> n * q)"
| "credits_added _ = True"


definition non_negative :: "db \<Rightarrow> bool" where
  "non_negative s \<longleftrightarrow> (\<forall>r \<in> set (user_profiles s). 0 \<le> credits r)"


definition state_ok :: "db \<Rightarrow> bool" where
  "state_ok s \<longleftrightarrow> primary_key s \<and> non_negative s"

subsection \<open>Example data\<close>

definition alice :: "int \<Rightarrow> user_profile" where
  "alice n = \<lparr>profile_id = ''alice'', email = ''alice@example.com'', credits = n,
              total_credits_purchased = 0\<rparr>"

text \<open>One account holding \<open>n\<close> credits, granted by one bonus row.\<close>

definition db_with :: "int \<Rightarrow> db" where
  "db_with n =
     \<lparr>user_profiles = [alice n],
      credit_transactions =
        [\<lparr>tx_user_id = ''alice'', amount = n, transaction_type = ''bonus'',
          description = ''Welcome bonus''\<rparr>],
      headshot_generations = []\<rparr>"

text \<open>A request during which every database call works.\<close>

definition calm :: "model_output outcome \<Rightarrow> env" where
  "calm r =
     \<lparr>auth_fault = NoFault, profile_fault = NoFault, credit_fault = NoFault,
      replicate_result = r, record_fault = NoFault, transaction_fault = NoFault,
      refund_fault = NoFault, failed_record_fault = NoFault\<rparr>"

text \<open>A sequence of operations on that account.\<close>

definition example_ops :: "op list" where
  "example_ops =
     [Generate_headshot_credits (calm (Returns (OutString ''a''))) ''alice'' True,
      Generate_headshot_credits (calm (Returns (OutString ''b''))) ''alice'' True,
      Update_user_credits ''alice'' (- 1) ''usage'' ''x'',
      Generate_headshot_auth (calm (Throws ''timeout'')) ''alice'' True,
      Purchase_credits (calm (Throws [])) ''alice'' (Some \<lparr>package_credits = 10, price_cents = 999\<rparr>),
      Api_generate_headshot (calm (Returns (OutString ''c''))) ''alice'' True]"

text \<open>A request during which the debit reports an error.\<close>

definition debit_down :: env where
  "debit_down = (calm (Returns (OutString ''x'')))\<lparr>credit_fault := ReturnsError\<rparr>"

text \<open>A request during which the model fails and the refund reports an error.\<close>

definition refund_down :: env where
  "refund_down = (calm (Throws ''timeout''))\<lparr>refund_fault := ReturnsError\<rparr>"


section \<open>Properties\<close>

subsection \<open>Rows and the primitives\<close>

lemma single_filter: "single P rows = Some p \<longleftrightarrow> filter P rows = [p]"
  by (auto simp: single_def split: list.splits)

lemma single_sat: "single P rows = Some p \<Longrightarrow> P p"
proof -
  assume "single P rows = Some p"
  then have "p \<in> set (filter P rows)" by (simp add: single_filter)
  then show "P p" by simp
qed

lemma single_in_set: "single P rows = Some p \<Longrightarrow> p \<in> set rows"
proof -
  assume "single P rows = Some p"
  then have "p \<in> set (filter P rows)" by (simp add: single_filter)
  then show "p \<in> set rows" by simp
qed

lemma single_member: "single P rows = Some p \<Longrightarrow> r \<in> set rows \<Longrightarrow> P r \<Longrightarrow> r = p"
proof -
  assume a: "single P rows = Some p" and b: "r \<in> set rows" and c: "P r"
  from a have "filter P rows = [p]" by (simp add: single_filter)
  moreover from b c have "r \<in> set (filter P rows)" by simp
  ultimately show "r = p" by simp
qed

lemma map_profile_id_set_credits [simp]:
  "map profile_id (set_credits u v rows) = map profile_id rows"
  by (simp add: set_credits_def)

lemma map_profile_id_add_credits [simp]:
  "map profile_id (add_credits u d rows) = map profile_id rows"
  by (simp add: add_credits_def)

lemma filter_add_credits:
  "filter (\<lambda>r. profile_id r = v) (add_credits u d rows) =
   map (\<lambda>r. if profile_id r = u then r\<lparr>credits := credits r + d\<rparr> else r)
     (filter (\<lambda>r. profile_id r = v) rows)"
  by (induction rows) (auto simp: add_credits_def)

lemma filter_set_credits:
  "filter (\<lambda>r. profile_id r = w) (set_credits u v rows) =
   map (\<lambda>r. if profile_id r = u then r\<lparr>credits := v\<rparr> else r)
     (filter (\<lambda>r. profile_id r = w) rows)"
  by (induction rows) (auto simp: set_credits_def)

lemma single_add_credits:
  "single (\<lambda>r. profile_id r = u) rows = Some p \<Longrightarrow>
   single (\<lambda>r. profile_id r = u) (add_credits u d rows) = Some (p\<lparr>credits := credits p + d\<rparr>)"
  using single_sat [of "\<lambda>r. profile_id r = u" rows p]
  by (simp add: single_filter filter_add_credits)

lemma single_set_credits:
  "single (\<lambda>r. profile_id r = u) rows = Some p \<Longrightarrow>
   single (\<lambda>r. profile_id r = u) (set_credits u v rows) = Some (p\<lparr>credits := v\<rparr>)"
  using single_sat [of "\<lambda>r. profile_id r = u" rows p]
  by (simp add: single_filter filter_set_credits)

text \<open>Under the primary key, the first matching row is the only one.\<close>

lemma distinct_filter_id:
  "distinct (map profile_id rows) \<Longrightarrow>
   filter (\<lambda>r. profile_id r = u) rows = [] \<or> (\<exists>p. filter (\<lambda>r. profile_id r = u) rows = [p])"
proof (induction rows)
  case Nil
  then show ?case by simp
next
  case (Cons a rows)
  show ?case
  proof (cases "profile_id a = u")
    case True
    with Cons.prems have "\<forall>r \<in> set rows. profile_id r \<noteq> u" by (fastforce simp: image_iff)
    then have "filter (\<lambda>r. profile_id r = u) rows = []" by (simp add: filter_empty_conv)
    with True show ?thesis by simp
  next
    case False
    with Cons show ?thesis by simp
  qed
qed

lemma update_user_credits_cases:
  assumes "update_user_credits u d t ds s = (r, s')"
  shows "(r = Inr True \<and>
          s' = s\<lparr>user_profiles := add_credits u d (user_profiles s),
                 credit_transactions := credit_transactions s @
                   [\<lparr>tx_user_id = u, amount = d, transaction_type = t, description = ds\<rparr>]\<rparr> \<and>
          (d < 0 \<longrightarrow> (case filter (\<lambda>r. profile_id r = u) (user_profiles s) of
                        [] \<Rightarrow> True | p # _ \<Rightarrow> 0 \<le> credits p + d)))
         \<or> (r \<noteq> Inr True \<and> s' = s)"
  using assms
  by (auto simp: update_user_credits_def Let_def split: if_splits list.splits)

lemma rpc_update_user_credits_cases:
  assumes "rpc_update_user_credits f u d t ds s = (r, s')"
  shows "s' = s \<or> (r = Data True \<and> update_user_credits u d t ds s = (Inr True, s'))"
proof (cases f)
  case NoFault
  obtain q s1 where q: "update_user_credits u d t ds s = (q, s1)" by (cases "update_user_credits u d t ds s")
  from update_user_credits_cases [OF q] q assms NoFault show ?thesis
    by (auto simp: rpc_update_user_credits_def split: sum.splits)
qed (use assms in \<open>auto simp: rpc_update_user_credits_def\<close>)

lemma non_negative_update_user_credits:
  assumes "primary_key s" "non_negative s" "update_user_credits u d t ds s = (r, s')"
  shows "non_negative s'"
proof -
  from update_user_credits_cases [OF assms(3)] show ?thesis
  proof
    assume a: "r = Inr True \<and>
          s' = s\<lparr>user_profiles := add_credits u d (user_profiles s),
                 credit_transactions := credit_transactions s @
                   [\<lparr>tx_user_id = u, amount = d, transaction_type = t, description = ds\<rparr>]\<rparr> \<and>
          (d < 0 \<longrightarrow> (case filter (\<lambda>r. profile_id r = u) (user_profiles s) of
                        [] \<Rightarrow> True | p # _ \<Rightarrow> 0 \<le> credits p + d))"
    have "0 \<le> credits x + d" if x: "x \<in> set (user_profiles s)" "profile_id x = u" for x
    proof (cases "d < 0")
      case True
      from x have m: "x \<in> set (filter (\<lambda>r. profile_id r = u) (user_profiles s))" by simp
      from x have ne: "filter (\<lambda>r. profile_id r = u) (user_profiles s) \<noteq> []"
        by (auto simp: filter_empty_conv)
      from distinct_filter_id [of "user_profiles s" u] assms(1) ne
      obtain p where p: "filter (\<lambda>r. profile_id r = u) (user_profiles s) = [p]"
        unfolding primary_key_def by blast
      with m have "x = p" by simp
      with a True p show ?thesis by simp
    next
      case False
      with assms(2) x show ?thesis by (auto simp: non_negative_def)
    qed
    with a assms(2) show ?thesis by (auto simp: non_negative_def add_credits_def)
  next
    assume "r \<noteq> Inr True \<and> s' = s"
    with assms(2) show ?thesis by simp
  qed
qed

lemma primary_key_update_user_credits:
  assumes "primary_key s" "update_user_credits u d t ds s = (r, s')"
  shows "primary_key s'"
  using update_user_credits_cases [OF assms(2)] assms(1)
  by (auto simp: primary_key_def)


lemma state_ok_rpc:
  "rpc_update_user_credits f u d t ds s = (r, s') \<Longrightarrow> state_ok s \<Longrightarrow> state_ok s'"
  using rpc_update_user_credits_cases [of f u d t ds s r s']
    non_negative_update_user_credits [of s u d t ds "Inr True" s']
    primary_key_update_user_credits [of s u d t ds "Inr True" s']
  by (auto simp: state_ok_def)

lemma state_ok_insert_generation:
  "insert_generation f g s = (r, s') \<Longrightarrow> state_ok s \<Longrightarrow> state_ok s'"
  by (auto simp: insert_generation_def state_ok_def primary_key_def non_negative_def split: fault.splits)

lemma state_ok_insert_transaction:
  "insert_transaction f g s = (r, s') \<Longrightarrow> state_ok s \<Longrightarrow> state_ok s'"
  by (auto simp: insert_transaction_def state_ok_def primary_key_def non_negative_def split: fault.splits)

lemma state_ok_set_credits:
  assumes "0 \<le> v" "state_ok s"
  shows "state_ok (s\<lparr>user_profiles := set_credits u v (user_profiles s)\<rparr>)"
proof -
  have "\<forall>r \<in> set (set_credits u v (user_profiles s)). 0 \<le> credits r"
    using assms by (auto simp: set_credits_def state_ok_def non_negative_def)
  with assms(2) show ?thesis by (simp add: state_ok_def primary_key_def non_negative_def)
qed

lemma state_ok_update_credits:
  "update_credits f u v s = (r, s') \<Longrightarrow> 0 \<le> v \<Longrightarrow> state_ok s \<Longrightarrow> state_ok s'"
  using state_ok_set_credits [of v s u]
  by (auto simp: update_credits_def split: fault.splits if_splits)

lemma state_ok_update_credits_single:
  "update_credits_single f u v s = (r, s') \<Longrightarrow> 0 \<le> v \<Longrightarrow> state_ok s \<Longrightarrow> state_ok s'"
  using state_ok_set_credits [of v s u]
  by (auto simp: update_credits_single_def split: fault.splits if_splits option.splits)

lemma state_ok_generate_headshot_auth:
  "state_ok s \<Longrightarrow> state_ok (fst (snd (generate_headshot_auth e req s)))"
  by (auto simp: generate_headshot_auth_def try_auth_def catch_auth_def Let_def
      split: prod.splits reply.splits sum.splits outcome.splits if_splits
      dest: state_ok_rpc state_ok_insert_generation)


lemma authenticateUser_in_set:
  "authenticateUser f u s = Some p \<Longrightarrow> p \<in> set (user_profiles s)"
  by (auto simp: authenticateUser_def select_profile_def
      split: fault.splits option.splits reply.splits dest: single_in_set)

lemma select_profile_in_set:
  "select_profile f u s = Data p \<Longrightarrow> p \<in> set (user_profiles s)"
  by (auto simp: select_profile_def split: fault.splits option.splits dest: single_in_set)

lemma state_ok_generate_headshot_credits:
  "state_ok s \<Longrightarrow> state_ok (fst (snd (generate_headshot_credits e req s)))"
  by (auto simp: generate_headshot_credits_def try_credits_def catch_credits_def Let_def
      split: prod.splits reply.splits sum.splits outcome.splits if_splits option.splits
      dest: state_ok_update_credits_single state_ok_insert_generation)

lemma state_ok_api_generate_headshot:
  "state_ok s \<Longrightarrow> state_ok (fst (snd (api_generate_headshot e u f s)))"
  by (auto simp: api_generate_headshot_def try_api_def Let_def
      split: prod.splits reply.splits sum.splits outcome.splits if_splits
      dest: state_ok_update_credits state_ok_insert_transaction)

lemma state_ok_generate_headshot_session:
  "state_ok s \<Longrightarrow> state_ok (fst (snd (generate_headshot_session e req s)))"
  by (auto simp: generate_headshot_session_def try_session_def catch_session_def Let_def
      split: prod.splits reply.splits sum.splits outcome.splits if_splits
      dest: state_ok_rpc state_ok_insert_generation)

lemma state_ok_generate_headshot_vercel:
  "state_ok s \<Longrightarrow> state_ok (fst (snd (generate_headshot_vercel e u f s)))"
  by (auto simp: generate_headshot_vercel_def Let_def
      split: prod.splits reply.splits sum.splits outcome.splits if_splits
      dest: state_ok_rpc state_ok_insert_generation)

lemma state_ok_purchase_credits:
  "state_ok s \<Longrightarrow> 0 \<le> credits (req_user req) \<Longrightarrow> (\<forall>pkg. package = Some pkg \<longrightarrow> 0 \<le> package_credits pkg)
   \<Longrightarrow> state_ok (fst (snd (purchase_credits e req package s)))"
  by (auto simp: purchase_credits_def Let_def
      split: prod.splits reply.splits sum.splits outcome.splits if_splits option.splits
      dest: state_ok_update_credits_single state_ok_insert_transaction)

lemma state_ok_stripe_webhook:
  "state_ok s \<Longrightarrow> 0 \<le> n * q \<Longrightarrow> state_ok (fst (stripe_webhook e m n q s))"
proof -
  assume a: "state_ok s" "0 \<le> n * q"
  have "0 \<le> credits p + n * q" if "single (\<lambda>r. email r = m) (user_profiles s) = Some p" for p
    using single_in_set [OF that] a by (auto simp: state_ok_def non_negative_def)
  with a(1) show ?thesis
    by (auto simp: stripe_webhook_def Let_def
      split: prod.splits reply.splits fault.splits if_splits option.splits
      dest: state_ok_update_credits)
qed

lemma state_ok_handle_new_user: "state_ok s \<Longrightarrow> state_ok (handle_new_user u m s)"
  by (auto simp: handle_new_user_def state_ok_def primary_key_def non_negative_def)

lemma state_ok_apply_op: "state_ok s \<Longrightarrow> credits_added x \<Longrightarrow> state_ok (apply_op x s)"
proof (cases x)
  case (Handle_new_user u m)
  assume "state_ok s" then show ?thesis by (simp add: Handle_new_user state_ok_handle_new_user)
next
  case (Update_user_credits u d t ds)
  assume a: "state_ok s"
  obtain r s1 where q: "update_user_credits u d t ds s = (r, s1)"
    by (cases "update_user_credits u d t ds s")
  from a q non_negative_update_user_credits [of s u d t ds r s1]
    primary_key_update_user_credits [of s u d t ds r s1]
  show ?thesis by (simp add: Update_user_credits state_ok_def)
next
  case (Generate_headshot_auth e u f)
  assume "state_ok s" then show ?thesis
    by (auto simp: Generate_headshot_auth post_generate_headshot_auth_def state_ok_generate_headshot_auth
        split: option.splits)
next
  case (Generate_headshot_credits e u f)
  assume "state_ok s" then show ?thesis
    by (auto simp: Generate_headshot_credits post_generate_headshot_credits_def
        state_ok_generate_headshot_credits split: option.splits)
next
  case (Api_generate_headshot e u f)
  assume "state_ok s" then show ?thesis
    by (simp add: Api_generate_headshot state_ok_api_generate_headshot)
next
  case (Generate_headshot_session e u f)
  assume "state_ok s" then show ?thesis
    by (auto simp: Generate_headshot_session post_generate_headshot_session_def
        state_ok_generate_headshot_session split: option.splits)
next
  case (Generate_headshot_vercel e u f)
  assume "state_ok s" then show ?thesis
    by (simp add: Generate_headshot_vercel state_ok_generate_headshot_vercel)
next
  case (Purchase_credits e u p)
  assume a: "state_ok s" "credits_added x"
  show ?thesis
  proof (cases "authenticateUser (auth_fault e) u s")
    case None
    with a show ?thesis by (simp add: Purchase_credits post_purchase_credits_def)
  next
    case (Some usr)
    from authenticateUser_in_set [OF Some] a(1) have "0 \<le> credits usr"
      by (auto simp: state_ok_def non_negative_def)
    moreover from a(2) have "\<forall>pkg. p = Some pkg \<longrightarrow> 0 \<le> package_credits pkg"
      by (auto simp: Purchase_credits)
    ultimately show ?thesis using a(1) Some
      by (simp add: Purchase_credits post_purchase_credits_def state_ok_purchase_credits)
  qed
next
  case (Stripe_webhook e m n q)
  assume "state_ok s" "credits_added x" then show ?thesis
    by (simp add: Stripe_webhook state_ok_stripe_webhook)
qed


lemma balance_authenticateUser:
  "balance s u = Some n \<Longrightarrow>
   \<exists>p. authenticateUser NoFault u s = Some p \<and> credits p = n \<and> profile_id p = u \<and>
       single (\<lambda>r. profile_id r = u) (user_profiles s) = Some p"
  by (auto simp: balance_def authenticateUser_def select_profile_def dest: single_sat)

lemma update_user_credits_ok:
  assumes "single (\<lambda>r. profile_id r = u) (user_profiles s) = Some p"
    and "int4 d" and "int4 (credits p + d)" and "0 \<le> credits p + d"
  shows "update_user_credits u d t ds s =
     (Inr True, s\<lparr>user_profiles := add_credits u d (user_profiles s),
                 credit_transactions := credit_transactions s @
                   [\<lparr>tx_user_id = u, amount = d,
                     transaction_type = t, description = ds\<rparr>]\<rparr>)"
proof -
  from assms(1) have f: "filter (\<lambda>r. profile_id r = u) (user_profiles s) = [p]"
    by (simp add: single_filter)
  have "\<And>r. r \<in> set (user_profiles s) \<Longrightarrow> profile_id r = u \<Longrightarrow> r = p"
    using assms(1) by (rule single_member)
  then have nov: "\<not> (\<exists>r \<in> set (user_profiles s).
                    profile_id r = u \<and> \<not> int4 (credits r + d))"
    using assms(3) by auto
  show ?thesis
    unfolding update_user_credits_def Let_def f using nov assms(2,4) by simp
qed

subsection \<open>The balance is never negative\<close>

text \<open>
  Claim C3. Starting from a profile table that satisfies its primary key and holds
  no negative balance, after every operation of every finite sequence of operations
  (registration bonus, any call of \<open>update_user_credits\<close>, generation requests to
  any of the servers with any outcome of the model and of the database calls,
  purchases and webhook events that add credits) no stored balance is negative.
\<close>

theorem balance_never_negative:
  assumes "primary_key s" and "non_negative s" and "\<forall>x \<in> set ops. credits_added x"
  shows "\<forall>s' \<in> set (states_after ops s). non_negative s'"
proof -
  have "state_ok s \<Longrightarrow> \<forall>x \<in> set ops. credits_added x \<Longrightarrow>
        \<forall>s' \<in> set (states_after ops s). state_ok s'"
  proof (induction ops arbitrary: s)
    case Nil
    then show ?case by simp
  next
    case (Cons x xs)
    from Cons.prems have "state_ok (apply_op x s)" by (simp add: state_ok_apply_op)
    with Cons show ?case by simp
  qed
  with assms show ?thesis by (simp add: state_ok_def)
qed

theorem balance_never_negative_witness:
  "primary_key (db_with 1) \<and> non_negative (db_with 1) \<and>
   list_all credits_added example_ops \<and>
   list_all non_negative (states_after example_ops (db_with 1)) \<and>
   length (states_after example_ops (db_with 1)) = 6"
proof -
  have h: "primary_key (db_with 1)" "non_negative (db_with 1)"
    "\<forall>x \<in> set example_ops. credits_added x"
    by (simp_all add: primary_key_def non_negative_def db_with_def alice_def example_ops_def)
  have "length (states_after example_ops (db_with 1)) = 6"
    by (simp add: example_ops_def)
  with balance_never_negative [OF h] h show ?thesis
    by (simp add: list_all_iff)
qed

subsection \<open>Reserve, then the model succeeds\<close>

text \<open>
  Claim C8. \<open>POST /generate-headshot\<close> of \<open>server_with_auth.js\<close>, for an account
  with balance \<open>n \<ge> 1\<close>, a request with a file, a model call that returns and
  database calls that work: the balance ends at \<open>n - 1\<close>, exactly one generation row
  is added and it is \<open>completed\<close> with the result, and exactly one transaction row is
  added, the \<open>usage\<close> row of \<open>-1\<close>; no refund row is written.
\<close>

theorem reserve_then_succeed:
  assumes "balance s u = Some n" and "1 \<le> n" and "int4 n"
    and "auth_fault e = NoFault" and "credit_fault e = NoFault"
    and "record_fault e = NoFault" and "profile_fault e \<noteq> Rejects"
    and "replicate_result e = Returns out"
  shows "case post_generate_headshot_auth e u True s of (res, s', tr) \<Rightarrow>
    balance s' u = Some (n - 1) \<and>
    headshot_generations s' = headshot_generations s @
       [\<lparr>gen_user_id = u, image_url = Some out, credits_used = 1, status = ''completed''\<rparr>] \<and>
    credit_transactions s' = credit_transactions s @
       [\<lparr>tx_user_id = u, amount = - 1, transaction_type = ''usage'',
         description = ''Professional headshot generation''\<rparr>] \<and>
    res_status res = 200 \<and> res_imageUrl res = Some out"
proof -
  from balance_authenticateUser [OF assms(1)] obtain p where
    p: "authenticateUser NoFault u s = Some p" "credits p = n" "profile_id p = u"
       "single (\<lambda>r. profile_id r = u) (user_profiles s) = Some p" by blast
  have i1: "int4 (- 1)" by (simp add: int4_def)
  have i2: "int4 (credits p + - 1)" using assms(2,3) p(2) by (simp add: int4_def)
  have i3: "0 \<le> credits p + - 1" using assms(2) p(2) by simp
  note upd = update_user_credits_ok [OF p(4) i1 i2 i3]
  show ?thesis
    using assms(2,4-8) p(1,2,3) single_add_credits [OF p(4), of "- 1"]
    by (auto simp: post_generate_headshot_auth_def generate_headshot_auth_def try_auth_def
        rpc_update_user_credits_def upd select_profile_def
        insert_generation_def balance_def json_success_def Let_def
        split: fault.splits)
qed

theorem reserve_then_succeed_witness:
  "case post_generate_headshot_auth (calm (Returns (OutString ''https://img/1.png''))) ''alice'' True (db_with 3)
   of (res, s', tr) \<Rightarrow>
     balance (db_with 3) ''alice'' = Some 3 \<and> balance s' ''alice'' = Some 2 \<and>
     length (headshot_generations s') = 1 \<and> length (credit_transactions s') = 2 \<and>
     res_status res = 200"
proof -
  have h: "balance (db_with 3) ''alice'' = Some 3" "(1::int) \<le> 3" "int4 3"
    "auth_fault (calm (Returns (OutString ''https://img/1.png''))) = NoFault"
    "credit_fault (calm (Returns (OutString ''https://img/1.png''))) = NoFault"
    "record_fault (calm (Returns (OutString ''https://img/1.png''))) = NoFault"
    "profile_fault (calm (Returns (OutString ''https://img/1.png''))) \<noteq> Rejects"
    "replicate_result (calm (Returns (OutString ''https://img/1.png''))) = Returns (OutString ''https://img/1.png'')"
    by (simp_all add: balance_def db_with_def alice_def single_def int4_def calm_def)
  from reserve_then_succeed [OF h] h(1) show ?thesis
    by (auto simp: db_with_def split: prod.splits)
qed

subsection \<open>A balance of zero stops the request\<close>

text \<open>
  Claim C5. A generation request by an account whose balance is 0 is answered with
  the error \<open>Insufficient credits\<close> (status 400; 402 in \<open>POST /generate-headshot\<close>
  of \<open>server_with_auth.js\<close>); the model is not called and
  nothing is written: the database state is the one before the request, no
  transaction row and no generation row is added. \<open>POST /generate-headshot\<close> of
  \<open>server_with_credits.js\<close> (middleware and handler) and the serverless handler
  \<open>api/auth/generate-headshot.js\<close> check the balance before anything else, so this
  holds with or without an uploaded file. The other servers look for the file
  first; for them the request carries one. The handlers that read the profile
  themselves make that one call and no other.
\<close>

theorem insufficient_balance_short_circuit:
  assumes "balance s u = Some 0" and "auth_fault e = NoFault" and "profile_fault e = NoFault"
  shows "post_generate_headshot_credits e u has_file s =
           (json_error 400
              ''Insufficient credits. You need at least 1 credit to generate a headshot.''
              None (Some 0), s, []) \<and>
         generate_headshot_vercel e u has_file s =
           (Some (json_error 400 ''Insufficient credits'' None None), s, [Select_profile]) \<and>
         post_generate_headshot_auth e u True s =
           (json_error 402 ''Insufficient credits''
              (Some ''You need at least 1 credit to generate a headshot. Please purchase more credits.'')
              None, s, []) \<and>
         post_generate_headshot_session e u True s =
           (Some (json_error 400 ''Insufficient credits'' None None), s, []) \<and>
         api_generate_headshot e u True s =
           (json_error 400 ''Insufficient credits'' None None, s, [Select_profile])"
proof -
  from balance_authenticateUser [OF assms(1)] obtain p where
    p: "authenticateUser NoFault u s = Some p" "credits p = 0"
       "single (\<lambda>r. profile_id r = u) (user_profiles s) = Some p" by blast
  from p assms(2) have 1: "post_generate_headshot_credits e u has_file s =
           (json_error 400
              ''Insufficient credits. You need at least 1 credit to generate a headshot.''
              None (Some 0), s, [])"
    by (simp add: post_generate_headshot_credits_def generate_headshot_credits_def
        try_credits_def)
  from p assms(3) have 2: "generate_headshot_vercel e u has_file s =
           (Some (json_error 400 ''Insufficient credits'' None None), s, [Select_profile])"
    by (simp add: generate_headshot_vercel_def select_profile_def)
  from p assms(2) have 3: "post_generate_headshot_auth e u True s =
           (json_error 402 ''Insufficient credits''
              (Some ''You need at least 1 credit to generate a headshot. Please purchase more credits.'')
              None, s, [])"
    by (simp add: post_generate_headshot_auth_def generate_headshot_auth_def try_auth_def)
  from p assms(2) have 4: "post_generate_headshot_session e u True s =
           (Some (json_error 400 ''Insufficient credits'' None None), s, [])"
    by (simp add: post_generate_headshot_session_def generate_headshot_session_def
        try_session_def)
  from p assms(3) have 5: "api_generate_headshot e u True s =
           (json_error 400 ''Insufficient credits'' None None, s, [Select_profile])"
    by (simp add: api_generate_headshot_def try_api_def select_profile_def)
  from 1 2 3 4 5 show ?thesis by simp
qed

theorem insufficient_balance_short_circuit_witness:
  "balance (db_with 0) ''alice'' = Some 0 \<and>
   fst (snd (post_generate_headshot_credits (calm (Returns (OutString ''x''))) ''alice'' True
     (db_with 0))) = db_with 0 \<and>
   snd (snd (post_generate_headshot_credits (calm (Returns (OutString ''x''))) ''alice'' True
     (db_with 0))) = [] \<and>
   res_status (fst (post_generate_headshot_credits (calm (Returns (OutString ''x''))) ''alice'' True
     (db_with 0))) = 400 \<and>
   fst (snd (generate_headshot_vercel (calm (Returns (OutString ''x''))) ''alice'' True
     (db_with 0))) = db_with 0"
proof -
  have h: "balance (db_with 0) ''alice'' = Some 0"
    "auth_fault (calm (Returns (OutString ''x''))) = NoFault"
    "profile_fault (calm (Returns (OutString ''x''))) = NoFault"
    by (simp_all add: balance_def db_with_def alice_def single_def calm_def)
  from insufficient_balance_short_circuit [OF h, where has_file = True] h(1) show ?thesis
    by (simp add: json_error_def)
qed

subsection \<open>Run the model first: a failed generation is not charged\<close>

text \<open>
  Claim C10, as amended. In the servers that run the model before they debit
  (\<open>server_with_credits.js\<close> and the server bundled in
  \<open>api/auth/session-status.js\<close>), a request that passes the balance check and whose
  model call throws leaves the balance unchanged and writes no transaction row, and
  no debit is attempted. The error response of \<open>server_with_credits.js\<close> carries
  \<open>creditsRemaining = req.user.credits\<close>, the balance read before the request; the
  error response of the other server carries no balance. The two other handlers
  that debit after the model, \<open>POST /api/generate-headshot\<close> of
  \<open>server_with_auth.js\<close> and \<open>api/auth/generate-headshot.js\<close>, also leave the whole
  state unchanged when the model throws; the first answers without a balance.
\<close>

theorem failed_generation_not_charged:
  assumes "1 \<le> credits (req_user req)" and "req_file req" and "replicate_result e = Throws msg"
  shows "(case generate_headshot_credits e req s of (res, s', tr) \<Rightarrow>
            s' = s \<and> tr = [Replicate_run, Console_error ''Headshot generation error:''] \<and>
            res_status res = 500 \<and>
            res_creditsRemaining res = Some (credits (req_user req))) \<and>
         (case generate_headshot_session e req s of (res, s', tr) \<Rightarrow>
            user_profiles s' = user_profiles s \<and>
            credit_transactions s' = credit_transactions s \<and>
            Rpc_update_user_credits (- 1) ''usage'' \<notin> set tr \<and>
            (res = None \<or>
             res = Some (json_error 500 ''Failed to generate headshot'' (Some msg) None))) \<and>
         (case api_generate_headshot e u has_file s of (res, s', tr) \<Rightarrow>
            s' = s \<and> res_creditsRemaining res = None) \<and>
         (case generate_headshot_vercel e u has_file s of (res, s', tr) \<Rightarrow> s' = s)"
proof -
  have a: "case generate_headshot_credits e req s of (res, s', tr) \<Rightarrow>
            s' = s \<and> tr = [Replicate_run, Console_error ''Headshot generation error:''] \<and>
            res_status res = 500 \<and>
            res_creditsRemaining res = Some (credits (req_user req))"
    using assms
    by (auto simp: generate_headshot_credits_def try_credits_def catch_credits_def
        json_error_def Let_def)
  have b: "case generate_headshot_session e req s of (res, s', tr) \<Rightarrow>
            user_profiles s' = user_profiles s \<and>
            credit_transactions s' = credit_transactions s \<and>
            Rpc_update_user_credits (- 1) ''usage'' \<notin> set tr \<and>
            (res = None \<or>
             res = Some (json_error 500 ''Failed to generate headshot'' (Some msg) None))"
    using assms
    by (auto simp: generate_headshot_session_def try_session_def catch_session_def
        insert_generation_def split: fault.splits)
  have c: "case api_generate_headshot e u has_file s of (res, s', tr) \<Rightarrow>
            s' = s \<and> res_creditsRemaining res = None"
    using assms(3)
    by (auto simp: api_generate_headshot_def try_api_def json_error_def
        split: reply.splits)
  have d: "case generate_headshot_vercel e u has_file s of (res, s', tr) \<Rightarrow> s' = s"
    using assms(3)
    by (auto simp: generate_headshot_vercel_def split: reply.splits)
  from a b c d show ?thesis by blast
qed

theorem failed_generation_not_charged_witness:
  "(case generate_headshot_credits (calm (Throws ''timeout''))
           \<lparr>req_user = alice 2, req_file = True\<rparr> (db_with 2) of (res, s', tr) \<Rightarrow>
      s' = db_with 2 \<and> res_creditsRemaining res = Some 2 \<and> res_status res = 500) \<and>
   (case generate_headshot_session (calm (Throws ''timeout''))
           \<lparr>req_user = alice 2, req_file = True\<rparr> (db_with 2) of (res, s', tr) \<Rightarrow>
      user_profiles s' = user_profiles (db_with 2) \<and>
      credit_transactions s' = credit_transactions (db_with 2))"
proof -
  have h: "1 \<le> credits (req_user \<lparr>req_user = alice 2, req_file = True\<rparr>)"
    "req_file \<lparr>req_user = alice 2, req_file = True\<rparr>"
    "replicate_result (calm (Throws ''timeout'')) = Throws ''timeout''"
    by (simp_all add: alice_def calm_def)
  from failed_generation_not_charged [OF h, where s = "db_with 2"] show ?thesis
    by (auto simp: alice_def split: prod.splits)
qed

text \<open>
  The claim as stated says that the error response reports the balance in all these
  servers. The server of \<open>api/auth/session-status.js\<close> answers with \<open>error\<close> and
  \<open>details\<close> only.
\<close>

theorem session_error_response_has_no_balance:
  "case generate_headshot_session (calm (Throws ''timeout''))
          \<lparr>req_user = alice 2, req_file = True\<rparr> (db_with 2) of (res, s', tr) \<Rightarrow>
     res = Some (json_error 500 ''Failed to generate headshot'' (Some ''timeout'') None) \<and>
     map_option res_creditsRemaining res = Some None \<and>
     balance s' ''alice'' = Some 2"
  by (simp add: generate_headshot_session_def try_session_def catch_session_def
      insert_generation_def calm_def alice_def db_with_def json_error_def balance_def single_def)

subsection \<open>Reserve, then the model fails\<close>

text \<open>
  Claim C7, as amended. For an account with balance \<open>n \<ge> 1\<close>, a request with a file
  and a model call that throws, with database calls that work:
  \<^item> \<open>POST /generate-headshot\<close> of \<open>server_with_auth.js\<close> debits first, so that the
    balance is \<open>n - 1\<close> when the model is called, and its \<open>catch\<close> block refunds: the
    balance is \<open>n\<close> again, the transaction rows added are the \<open>usage\<close> row of \<open>-1\<close>
    and the \<open>refund\<close> row of \<open>+1\<close>, and no generation row is written;
  \<^item> the server bundled in \<open>api/auth/session-status.js\<close> has not debited when the
    model fails: the balance stays \<open>n\<close>, no transaction row is written, and exactly
    one generation row is added, with status \<open>failed\<close>, no image and
    \<open>credits_used = 0\<close>.
\<close>

theorem reserve_then_fail:
  assumes "single (\<lambda>r. profile_id r = u) (user_profiles s) = Some p"
    and "1 \<le> credits p" and "int4 (credits p)"
    and "credit_fault e = NoFault" and "refund_fault e = NoFault"
    and "failed_record_fault e = NoFault"
    and "replicate_result e = Throws msg"
  shows "(case try_auth e \<lparr>req_user = p, req_file = True\<rparr> s of (r, s1, tr) \<Rightarrow>
            r = Inl msg \<and> balance s1 u = Some (credits p - 1)) \<and>
         (case generate_headshot_auth e \<lparr>req_user = p, req_file = True\<rparr> s of (res, s', tr) \<Rightarrow>
            balance s' u = Some (credits p) \<and>
            credit_transactions s' = credit_transactions s @
              [\<lparr>tx_user_id = u, amount = - 1, transaction_type = ''usage'',
                description = ''Professional headshot generation''\<rparr>,
               \<lparr>tx_user_id = u, amount = 1, transaction_type = ''refund'',
                description = ''Refund for failed generation''\<rparr>] \<and>
            headshot_generations s' = headshot_generations s \<and>
            res = json_error 500 ''Failed to generate headshot'' (Some msg) None) \<and>
         (case generate_headshot_session e \<lparr>req_user = p, req_file = True\<rparr> s of (res, s', tr) \<Rightarrow>
            balance s' u = Some (credits p) \<and>
            credit_transactions s' = credit_transactions s \<and>
            headshot_generations s' = headshot_generations s @
              [\<lparr>gen_user_id = u, image_url = None, credits_used = 0, status = ''failed''\<rparr>] \<and>
            res = Some (json_error 500 ''Failed to generate headshot'' (Some msg) None))"
proof -
  let ?s1 = "s\<lparr>user_profiles := add_credits u (- 1) (user_profiles s),
                credit_transactions := credit_transactions s @
                  [\<lparr>tx_user_id = u, amount = - 1, transaction_type = ''usage'',
                    description = ''Professional headshot generation''\<rparr>]\<rparr>"
  let ?p1 = "p\<lparr>credits := credits p + - 1\<rparr>"
  from assms(1) have pid: "profile_id p = u" by (rule single_sat)
  have i1: "int4 (- 1)" "int4 1" by (simp_all add: int4_def)
  have i2: "int4 (credits p + - 1)" using assms(2,3) by (simp add: int4_def)
  have i3: "0 \<le> credits p + - 1" using assms(2) by simp
  have debit: "update_user_credits u (- 1) ''usage'' ''Professional headshot generation'' s =
      (Inr True, ?s1)"
    by (rule update_user_credits_ok [OF assms(1) i1(1) i2 i3])
  have sg1: "single (\<lambda>r. profile_id r = u) (user_profiles ?s1) = Some ?p1"
    using single_add_credits [OF assms(1), of "- 1"] by simp
  have j2: "int4 (credits ?p1 + 1)" using assms(3) by simp
  have j3: "0 \<le> credits ?p1 + 1" using assms(2) by simp
  note refund = update_user_credits_ok [OF sg1 i1(2) j2 j3,
      of "''refund''" "''Refund for failed generation''"]
  have sg2: "single (\<lambda>r. profile_id r = u)
       (add_credits u 1 (add_credits u (- 1) (user_profiles s))) = Some (?p1\<lparr>credits := credits ?p1 + 1\<rparr>)"
    using single_add_credits [OF sg1, of 1] by simp
  have t: "try_auth e \<lparr>req_user = p, req_file = True\<rparr> s =
      (Inl msg, ?s1, [Rpc_update_user_credits (- 1) ''usage'', Replicate_run])"
    using assms(2,4,7) pid by (simp add: try_auth_def rpc_update_user_credits_def debit)
  have a: "case try_auth e \<lparr>req_user = p, req_file = True\<rparr> s of (r, s1, tr) \<Rightarrow>
            r = Inl msg \<and> balance s1 u = Some (credits p - 1)"
    using sg1 by (simp add: t balance_def)
  have b: "case generate_headshot_auth e \<lparr>req_user = p, req_file = True\<rparr> s of (res, s', tr) \<Rightarrow>
            balance s' u = Some (credits p) \<and>
            credit_transactions s' = credit_transactions s @
              [\<lparr>tx_user_id = u, amount = - 1, transaction_type = ''usage'',
                description = ''Professional headshot generation''\<rparr>,
               \<lparr>tx_user_id = u, amount = 1, transaction_type = ''refund'',
                description = ''Refund for failed generation''\<rparr>] \<and>
            headshot_generations s' = headshot_generations s \<and>
            res = json_error 500 ''Failed to generate headshot'' (Some msg) None"
    using assms(5) pid sg2 refund
    by (simp add: generate_headshot_auth_def t catch_auth_def rpc_update_user_credits_def
        balance_def)
  have c: "case generate_headshot_session e \<lparr>req_user = p, req_file = True\<rparr> s of (res, s', tr) \<Rightarrow>
            balance s' u = Some (credits p) \<and>
            credit_transactions s' = credit_transactions s \<and>
            headshot_generations s' = headshot_generations s @
              [\<lparr>gen_user_id = u, image_url = None, credits_used = 0, status = ''failed''\<rparr>] \<and>
            res = Some (json_error 500 ''Failed to generate headshot'' (Some msg) None)"
    using assms(1,2,6,7) pid
    by (simp add: generate_headshot_session_def try_session_def catch_session_def
        insert_generation_def balance_def)
  from a b c show ?thesis by blast
qed

theorem reserve_then_fail_witness:
  "single (\<lambda>r. profile_id r = ''alice'') (user_profiles (db_with 3)) = Some (alice 3) \<and>
   (case try_auth (calm (Throws ''timeout'')) \<lparr>req_user = alice 3, req_file = True\<rparr> (db_with 3)
    of (r, s1, tr) \<Rightarrow> balance s1 ''alice'' = Some 2) \<and>
   (case generate_headshot_auth (calm (Throws ''timeout'')) \<lparr>req_user = alice 3, req_file = True\<rparr>
      (db_with 3) of (res, s', tr) \<Rightarrow>
        balance s' ''alice'' = Some 3 \<and> map amount (credit_transactions s') = [3, - 1, 1] \<and>
        headshot_generations s' = []) \<and>
   (case generate_headshot_session (calm (Throws ''timeout'')) \<lparr>req_user = alice 3, req_file = True\<rparr>
      (db_with 3) of (res, s', tr) \<Rightarrow>
        balance s' ''alice'' = Some 3 \<and> map amount (credit_transactions s') = [3] \<and>
        map status (headshot_generations s') = [''failed''])"
proof -
  have h: "single (\<lambda>r. profile_id r = ''alice'') (user_profiles (db_with 3)) = Some (alice 3)"
    "1 \<le> credits (alice 3)" "int4 (credits (alice 3))"
    "credit_fault (calm (Throws ''timeout'')) = NoFault"
    "refund_fault (calm (Throws ''timeout'')) = NoFault"
    "failed_record_fault (calm (Throws ''timeout'')) = NoFault"
    "replicate_result (calm (Throws ''timeout'')) = Throws ''timeout''"
    by (simp_all add: db_with_def alice_def single_def int4_def calm_def)
  from reserve_then_fail [OF h] h(1) show ?thesis
    by (auto simp: db_with_def alice_def split: prod.splits)
qed

text \<open>
  The claim as stated has the refund and the \<open>failed\<close> record in one execution. The
  handler that refunds writes no generation row when the model fails.
\<close>

theorem refund_leaves_no_failed_record:
  "case post_generate_headshot_auth (calm (Throws ''timeout'')) ''alice'' True (db_with 1)
   of (res, s', tr) \<Rightarrow>
     balance s' ''alice'' = Some 1 \<and>
     map transaction_type (credit_transactions s') = [''bonus'', ''usage'', ''refund''] \<and>
     filter (\<lambda>g. status g = ''failed'') (headshot_generations s') = [] \<and>
     headshot_generations s' = []"
  by (simp add: post_generate_headshot_auth_def authenticateUser_def select_profile_def
      generate_headshot_auth_def try_auth_def catch_auth_def rpc_update_user_credits_def
      update_user_credits_def add_credits_def int4_def
      calm_def alice_def db_with_def json_error_def balance_def single_def Let_def)

subsection \<open>Debit before the model is called\<close>

lemma try_auth_trace:
  assumes "try_auth e req s = (r, s', tr)"
  shows "tr = [] \<or> (\<exists>rest. tr = Rpc_update_user_credits (- 1) ''usage'' # rest \<and>
           Replicate_run \<notin> set rest) \<or>
         (\<exists>rest. tr = Rpc_update_user_credits (- 1) ''usage'' # Replicate_run # rest \<and>
           Replicate_run \<notin> set rest \<and>
           (\<exists>b s1. rpc_update_user_credits (credit_fault e) (profile_id (req_user req)) (- 1)
              ''usage'' ''Professional headshot generation'' s = (Data b, s1)))"
  using assms
  by (auto simp: try_auth_def Let_def
      split: if_splits prod.splits reply.splits outcome.splits)

text \<open>
  Claim C1, as amended. In \<open>POST /generate-headshot\<close> of \<open>server_with_auth.js\<close>
  (and \<open>server_email_fixed.js\<close>), for every request, every database state and every
  behaviour of the outside world:
  \<^item> whenever the model is called, the usage debit (\<open>update_user_credits\<close> with
    \<open>-1\<close>) was issued before it, and the model is called at most once;
  \<^item> when the debit reports an error, the model is not called, nothing is written,
    and a request that got that far is answered with status 402;
  \<^item> a request whose \<open>req.user.credits\<close> is below 1 never reaches the model and writes
    nothing.
\<close>

theorem debit_precedes_model_call:
  "case generate_headshot_auth e req s of (res, s', tr) \<Rightarrow>
     (Replicate_run \<in> set tr \<longrightarrow>
        (\<exists>rest. tr = Rpc_update_user_credits (- 1) ''usage'' # Replicate_run # rest \<and>
                Replicate_run \<notin> set rest)) \<and>
     (fst (rpc_update_user_credits (credit_fault e) (profile_id (req_user req)) (- 1)
             ''usage'' ''Professional headshot generation'' s) = Error \<longrightarrow>
        Replicate_run \<notin> set tr \<and> s' = s \<and>
        (req_file req \<and> 1 \<le> credits (req_user req) \<longrightarrow>
           res = json_error 402 ''Failed to deduct credits'' None None)) \<and>
     (credits (req_user req) < 1 \<longrightarrow> Replicate_run \<notin> set tr \<and> s' = s)"
proof -
  obtain res s' tr where g: "generate_headshot_auth e req s = (res, s', tr)"
    by (cases "generate_headshot_auth e req s") auto
  obtain r s1 tr1 where t: "try_auth e req s = (r, s1, tr1)"
    by (cases "try_auth e req s") auto
  from g t have tr: "tr = tr1 \<or> (\<exists>ext. tr = tr1 @ ext \<and> Replicate_run \<notin> set ext)"
    by (auto simp: generate_headshot_auth_def catch_auth_def split: sum.splits prod.splits)
  have a: "Replicate_run \<in> set tr \<longrightarrow>
            (\<exists>rest. tr = Rpc_update_user_credits (- 1) ''usage'' # Replicate_run # rest \<and>
                    Replicate_run \<notin> set rest)"
    using try_auth_trace [OF t] tr by auto
  have b: "fst (rpc_update_user_credits (credit_fault e) (profile_id (req_user req)) (- 1)
                 ''usage'' ''Professional headshot generation'' s) = Error \<longrightarrow>
            Replicate_run \<notin> set tr \<and> s' = s \<and>
            (req_file req \<and> 1 \<le> credits (req_user req) \<longrightarrow>
               res = json_error 402 ''Failed to deduct credits'' None None)"
  proof
    assume err: "fst (rpc_update_user_credits (credit_fault e) (profile_id (req_user req)) (- 1)
                 ''usage'' ''Professional headshot generation'' s) = Error"
    then obtain s2 where r2: "rpc_update_user_credits (credit_fault e) (profile_id (req_user req))
        (- 1) ''usage'' ''Professional headshot generation'' s = (Error, s2)"
      by (cases "rpc_update_user_credits (credit_fault e) (profile_id (req_user req))
        (- 1) ''usage'' ''Professional headshot generation'' s") auto
    from rpc_update_user_credits_cases [OF r2] have s2: "s2 = s" by auto
    from try_auth_trace [OF t] tr r2 have 1: "Replicate_run \<notin> set tr" by auto
    from g r2 s2 have 2: "s' = s \<and> (req_file req \<and> 1 \<le> credits (req_user req) \<longrightarrow>
               res = json_error 402 ''Failed to deduct credits'' None None)"
      by (auto simp: generate_headshot_auth_def try_auth_def split: if_splits)
    from 1 2 show "Replicate_run \<notin> set tr \<and> s' = s \<and>
            (req_file req \<and> 1 \<le> credits (req_user req) \<longrightarrow>
               res = json_error 402 ''Failed to deduct credits'' None None)" by simp
  qed
  have c: "credits (req_user req) < 1 \<longrightarrow> Replicate_run \<notin> set tr \<and> s' = s"
    using g by (auto simp: generate_headshot_auth_def try_auth_def split: if_splits)
  from a b c show ?thesis by (simp add: g)
qed

theorem debit_precedes_model_call_witness:
  "(case generate_headshot_auth (calm (Returns (OutString ''x'')))
      \<lparr>req_user = alice 1, req_file = True\<rparr> (db_with 1) of (res, s', tr) \<Rightarrow>
      Replicate_run \<in> set tr \<and>
      take 2 tr = [Rpc_update_user_credits (- 1) ''usage'', Replicate_run]) \<and>
   (case generate_headshot_auth debit_down
      \<lparr>req_user = alice 1, req_file = True\<rparr> (db_with 1) of (res, s', tr) \<Rightarrow>
      fst (rpc_update_user_credits (credit_fault debit_down) ''alice'' (- 1)
          ''usage'' ''Professional headshot generation'' (db_with 1)) = Error \<and>
      Replicate_run \<notin> set tr \<and> s' = db_with 1 \<and>
      res = json_error 402 ''Failed to deduct credits'' None None) \<and>
   (case generate_headshot_auth (calm (Returns (OutString ''x'')))
      \<lparr>req_user = alice 0, req_file = True\<rparr> (db_with 0) of (res, s', tr) \<Rightarrow>
      Replicate_run \<notin> set tr \<and> s' = db_with 0)"
proof -
  have run: "Replicate_run \<in> set (snd (snd (generate_headshot_auth (calm (Returns (OutString ''x'')))
      \<lparr>req_user = alice 1, req_file = True\<rparr> (db_with 1))))"
    by (simp add: generate_headshot_auth_def try_auth_def rpc_update_user_credits_def
        update_user_credits_def add_credits_def int4_def insert_generation_def select_profile_def
        calm_def alice_def db_with_def single_def Let_def)
  have err: "fst (rpc_update_user_credits (credit_fault debit_down) ''alice'' (- 1)
          ''usage'' ''Professional headshot generation'' (db_with 1)) = Error"
    by (simp add: debit_down_def calm_def rpc_update_user_credits_def)
  from debit_precedes_model_call
      [of "calm (Returns (OutString ''x''))" "\<lparr>req_user = alice 1, req_file = True\<rparr>" "db_with 1"]
    run
  have 1: "case generate_headshot_auth (calm (Returns (OutString ''x'')))
      \<lparr>req_user = alice 1, req_file = True\<rparr> (db_with 1) of (res, s', tr) \<Rightarrow>
      Replicate_run \<in> set tr \<and>
      take 2 tr = [Rpc_update_user_credits (- 1) ''usage'', Replicate_run]"
    by (auto split: prod.splits)
  from debit_precedes_model_call
      [of debit_down "\<lparr>req_user = alice 1, req_file = True\<rparr>" "db_with 1"] err
  have 2: "case generate_headshot_auth debit_down
      \<lparr>req_user = alice 1, req_file = True\<rparr> (db_with 1) of (res, s', tr) \<Rightarrow>
      fst (rpc_update_user_credits (credit_fault debit_down) ''alice'' (- 1)
          ''usage'' ''Professional headshot generation'' (db_with 1)) = Error \<and>
      Replicate_run \<notin> set tr \<and> s' = db_with 1 \<and>
      res = json_error 402 ''Failed to deduct credits'' None None"
    by (auto simp: alice_def split: prod.splits)
  from debit_precedes_model_call
      [of "calm (Returns (OutString ''x''))" "\<lparr>req_user = alice 0, req_file = True\<rparr>" "db_with 0"]
  have 3: "case generate_headshot_auth (calm (Returns (OutString ''x'')))
      \<lparr>req_user = alice 0, req_file = True\<rparr> (db_with 0) of (res, s', tr) \<Rightarrow>
      Replicate_run \<notin> set tr \<and> s' = db_with 0"
    by (auto simp: alice_def split: prod.splits)
  from 1 2 3 show ?thesis by blast
qed

text \<open>
  The claim as stated speaks of every execution of the generation protocol. The
  handler of \<open>server_with_credits.js\<close> calls the model first and debits afterwards.
\<close>

theorem model_called_before_debit:
  "case generate_headshot_credits (calm (Returns (OutString ''x'')))
          \<lparr>req_user = alice 1, req_file = True\<rparr> (db_with 1) of (res, s', tr) \<Rightarrow>
     tr = [Replicate_run, Update_credits 0, Insert_headshot_generation ''completed''] \<and>
     balance (db_with 1) ''alice'' = Some 1 \<and> balance s' ''alice'' = Some 0 \<and>
     res_status res = 200"
  by (simp add: generate_headshot_credits_def try_credits_def imageUrl_of_def
      update_credits_single_def set_credits_def int4_def insert_generation_def
      calm_def alice_def db_with_def json_success_def balance_def single_def Let_def)

subsection \<open>A refund that fails\<close>

text \<open>
  Claim C9 asks that a failed refund be reported apart from the failure of the model.
  The run below is \<open>POST /generate-headshot\<close> of \<open>server_with_auth.js\<close> with a model
  call that throws and a refund call that resolves with an error. The response and
  the trace, \<open>console.error\<close> lines included, are the ones of the run in which the
  refund works; the balance is 0 in the one and 1 in the other.
\<close>

theorem refund_error_leaves_no_trace:
  "case generate_headshot_auth refund_down \<lparr>req_user = alice 1, req_file = True\<rparr> (db_with 1)
   of (res, s', tr) \<Rightarrow>
     res = json_error 500 ''Failed to generate headshot'' (Some ''timeout'') None \<and>
     tr = [Rpc_update_user_credits (- 1) ''usage'', Replicate_run,
           Console_error ''Error generating headshot:'', Rpc_update_user_credits 1 ''refund''] \<and>
     balance s' ''alice'' = Some 0 \<and>
     map transaction_type (credit_transactions s') = [''bonus'', ''usage''] \<and>
     res = fst (generate_headshot_auth (calm (Throws ''timeout''))
                  \<lparr>req_user = alice 1, req_file = True\<rparr> (db_with 1)) \<and>
     tr = snd (snd (generate_headshot_auth (calm (Throws ''timeout''))
                  \<lparr>req_user = alice 1, req_file = True\<rparr> (db_with 1))) \<and>
     balance (fst (snd (generate_headshot_auth (calm (Throws ''timeout''))
                  \<lparr>req_user = alice 1, req_file = True\<rparr> (db_with 1)))) ''alice'' = Some 1"
  by (simp add: generate_headshot_auth_def try_auth_def catch_auth_def rpc_update_user_credits_def
      update_user_credits_def add_credits_def int4_def refund_down_def
      calm_def alice_def db_with_def json_error_def balance_def single_def Let_def)

subsection \<open>Two requests that overlap\<close>

text \<open>
  Claim C2 asks that two simultaneous debits against a balance that covers one never
  both succeed. Below, the middleware of two requests to \<open>server_with_credits.js\<close>
  has read the profile of an account with balance 1 before either handler writes:
  both handlers get \<open>req.user.credits = 1\<close>. Each passes the check, gets its image,
  writes \<open>credits = 0\<close> without an error and answers 200.
\<close>

theorem overlapping_requests_both_debit:
  "case generate_headshot_credits (calm (Returns (OutString ''a'')))
          \<lparr>req_user = alice 1, req_file = True\<rparr> (db_with 1) of (res1, s1, tr1) \<Rightarrow>
   case generate_headshot_credits (calm (Returns (OutString ''b'')))
          \<lparr>req_user = alice 1, req_file = True\<rparr> s1 of (res2, s2, tr2) \<Rightarrow>
     authenticateUser NoFault ''alice'' (db_with 1) = Some (alice 1) \<and>
     balance (db_with 1) ''alice'' = Some 1 \<and>
     res1 = json_success (OutString ''a'') (Some 0) \<and>
     res2 = json_success (OutString ''b'') (Some 0) \<and>
     tr1 = [Replicate_run, Update_credits 0, Insert_headshot_generation ''completed''] \<and>
     tr2 = [Replicate_run, Update_credits 0, Insert_headshot_generation ''completed''] \<and>
     balance s2 ''alice'' = Some 0 \<and>
     map credits_used (headshot_generations s2) = [1, 1]"
  by (simp add: generate_headshot_credits_def try_credits_def imageUrl_of_def
      update_credits_single_def set_credits_def int4_def insert_generation_def
      authenticateUser_def select_profile_def
      calm_def alice_def db_with_def json_success_def balance_def single_def Let_def)

subsection \<open>Balance and transaction rows\<close>

lemma ledger_sum_append [simp]:
  "ledger_sum v (txs @ [t]) = ledger_sum v txs + (if tx_user_id t = v then amount t else 0)"
  by (simp add: ledger_sum_def)











subsection \<open>One call of \<open>update_user_credits\<close>\<close>

text \<open>
  Claim C6, as amended. Every call of \<open>update_user_credits\<close> made by a handler,
  whatever its arguments and whatever the outside world does to the call, either
  returns true, having added the change to the balance and appended the one matching
  transaction row, or leaves the whole database as it was. For an account that has
  its profile row, a call that passes the balance check (or has a positive change),
  with values in the range of the column and no failure of the call, does return
  true, and the balance is then the old balance plus the change.
\<close>

theorem update_user_credits_atomic:
  "case rpc_update_user_credits f u d t ds s of (r, s') \<Rightarrow>
     ((r = Data True \<and>
       user_profiles s' = add_credits u d (user_profiles s) \<and>
       credit_transactions s' = credit_transactions s @
         [\<lparr>tx_user_id = u, amount = d, transaction_type = t, description = ds\<rparr>] \<and>
       headshot_generations s' = headshot_generations s)
      \<or> (r \<noteq> Data True \<and> s' = s)) \<and>
     (\<forall>p. single (\<lambda>r. profile_id r = u) (user_profiles s) = Some p \<longrightarrow>
        (r = Data True \<longrightarrow> balance s' u = Some (credits p + d)) \<and>
        (f = NoFault \<and> int4 d \<and> int4 (credits p + d) \<and> (0 < d \<or> 0 \<le> credits p + d)
           \<longrightarrow> r = Data True))"
proof -
  obtain r s' where g: "rpc_update_user_credits f u d t ds s = (r, s')"
    by (cases "rpc_update_user_credits f u d t ds s")
  obtain q s1 where q: "update_user_credits u d t ds s = (q, s1)"
    by (cases "update_user_credits u d t ds s")
  have a: "(r = Data True \<and>
       user_profiles s' = add_credits u d (user_profiles s) \<and>
       credit_transactions s' = credit_transactions s @
         [\<lparr>tx_user_id = u, amount = d, transaction_type = t, description = ds\<rparr>] \<and>
       headshot_generations s' = headshot_generations s)
      \<or> (r \<noteq> Data True \<and> s' = s)"
    using g q update_user_credits_cases [OF q]
    by (auto simp: rpc_update_user_credits_def split: fault.splits sum.splits)
  have b: "balance s' u = Some (credits p + d)"
    if "single (\<lambda>r. profile_id r = u) (user_profiles s) = Some p" "r = Data True" for p
    using a that single_add_credits [OF that(1), of d] by (auto simp: balance_def)
  have c: "r = Data True"
    if p: "single (\<lambda>r. profile_id r = u) (user_profiles s) = Some p"
      and ok: "f = NoFault" "int4 d" "int4 (credits p + d)" "0 < d \<or> 0 \<le> credits p + d" for p
  proof -
    from p have f1: "filter (\<lambda>r. profile_id r = u) (user_profiles s) = [p]"
      by (simp add: single_filter)
    have "\<And>x. x \<in> set (user_profiles s) \<Longrightarrow> profile_id x = u \<Longrightarrow> x = p"
      using p by (rule single_member)
    then have nov: "\<not> (\<exists>x \<in> set (user_profiles s). profile_id x = u \<and> \<not> int4 (credits x + d))"
      using ok(3) by auto
    have "fst (update_user_credits u d t ds s) = Inr True"
      unfolding update_user_credits_def Let_def f1 using nov ok(2,4) by auto
    with g ok(1) show ?thesis
      by (auto simp: rpc_update_user_credits_def split: sum.splits prod.splits)
  qed
  from a b c show ?thesis by (simp add: g)
qed

theorem update_user_credits_atomic_witness:
  "(case rpc_update_user_credits NoFault ''alice'' (- 1) ''usage'' ''x'' (db_with 3) of (r, s') \<Rightarrow>
     single (\<lambda>r. profile_id r = ''alice'') (user_profiles (db_with 3)) = Some (alice 3) \<and>
     r = Data True \<and> balance s' ''alice'' = Some 2 \<and>
     map amount (credit_transactions s') = [3, - 1]) \<and>
   (case rpc_update_user_credits NoFault ''alice'' (- 4) ''usage'' ''x'' (db_with 3) of (r, s') \<Rightarrow>
     r = Data False \<and> s' = db_with 3)"
proof -
  have p: "single (\<lambda>r. profile_id r = ''alice'') (user_profiles (db_with 3)) = Some (alice 3)"
    by (simp add: db_with_def alice_def single_def)
  have i: "int4 (- 1)" "int4 (credits (alice 3) + - 1)" "0 \<le> credits (alice 3) + - 1"
    by (simp_all add: int4_def alice_def)
  from update_user_credits_atomic [where f = NoFault and u = "''alice''" and d = "- 1" and t = "''usage''"
      and ds = "''x''" and s = "db_with 3"] p i
  have 1: "case rpc_update_user_credits NoFault ''alice'' (- 1) ''usage'' ''x'' (db_with 3) of (r, s') \<Rightarrow>
     single (\<lambda>r. profile_id r = ''alice'') (user_profiles (db_with 3)) = Some (alice 3) \<and>
     r = Data True \<and> balance s' ''alice'' = Some 2 \<and>
     map amount (credit_transactions s') = [3, - 1]"
    by (auto simp: alice_def db_with_def split: prod.splits)
  have f: "fst (rpc_update_user_credits NoFault ''alice'' (- 4) ''usage'' ''x'' (db_with 3)) = Data False"
    by (simp add: rpc_update_user_credits_def update_user_credits_def int4_def db_with_def alice_def)
  from update_user_credits_atomic [where f = NoFault and u = "''alice''" and d = "- 4" and t = "''usage''"
      and ds = "''x''" and s = "db_with 3"] f
  have 2: "case rpc_update_user_credits NoFault ''alice'' (- 4) ''usage'' ''x'' (db_with 3) of (r, s') \<Rightarrow>
     r = Data False \<and> s' = db_with 3"
    by (auto split: prod.splits)
  from 1 2 show ?thesis by blast
qed

text \<open>
  The claim as stated is about every balance change. The handler of
  \<open>server_with_credits.js\<close> debits by writing the \<open>credits\<close> column: the balance
  changes and no transaction row is written.
\<close>

theorem debit_without_transaction_row:
  "case generate_headshot_credits (calm (Returns (OutArray [''https://img/5.png''])))
          \<lparr>req_user = alice 5, req_file = True\<rparr> (db_with 5) of (res, s', tr) \<Rightarrow>
     res_status res = 200 \<and>
     balance (db_with 5) ''alice'' = Some 5 \<and> balance s' ''alice'' = Some 4 \<and>
     credit_transactions s' = credit_transactions (db_with 5) \<and>
     map amount (credit_transactions s') = [5]"
  by (simp add: generate_headshot_credits_def try_credits_def imageUrl_of_def
      update_credits_single_def set_credits_def int4_def insert_generation_def
      calm_def alice_def db_with_def json_success_def balance_def single_def Let_def)

end
